theory Spec2Isabelle
  imports Complex_Main
begin

section \<open>Python values: exceptions as results\<close>

text \<open>
  The plugin is Python. Every exception a modelled statement can raise is a value of
  \<open>error\<close>; a computation that may raise returns \<open>error + 'a\<close>, with \<open>Inl\<close> the
  exception that escapes.
\<close>

datatype error =
    AttributeError
  | IndexError
  | KeyError
  | TypeError
  | ValueError
  | UnboundLocalError
  | FileNotFoundError
  | Exception string

definition bind_err :: "error + 'a \<Rightarrow> ('a \<Rightarrow> error + 'b) \<Rightarrow> error + 'b" where
  "bind_err r f = (case r of Inl e \<Rightarrow> Inl e | Inr v \<Rightarrow> f v)"

text \<open>Reading an attribute of a pydicom dataset: an absent element raises AttributeError.\<close>

definition attr :: "'a option \<Rightarrow> error + 'a" where
  "attr v = (case v of None \<Rightarrow> Inl AttributeError | Some x \<Rightarrow> Inr x)"

text \<open>\<open>seq[0]\<close> on a sequence: IndexError when it is empty.\<close>

definition first_item :: "'a list \<Rightarrow> error + 'a" where
  "first_item xs = (case xs of [] \<Rightarrow> Inl IndexError | x # _ \<Rightarrow> Inr x)"

text \<open>\<open>xs[i]\<close> with a non-negative index: IndexError out of range.\<close>

definition item_at :: "'a list \<Rightarrow> nat \<Rightarrow> error + 'a" where
  "item_at xs i = (if i < length xs then Inr (xs ! i) else Inl IndexError)"

text \<open>Reading a local variable that no statement has bound yet.\<close>

definition local_var :: "'a option \<Rightarrow> error + 'a" where
  "local_var v = (case v of None \<Rightarrow> Inl UnboundLocalError | Some x \<Rightarrow> Inr x)"

text \<open>\<open>d[key]\<close> on a dict: KeyError when the key is absent.\<close>

definition dict_get :: "'a option \<Rightarrow> error + 'a" where
  "dict_get v = (case v of None \<Rightarrow> Inl KeyError | Some x \<Rightarrow> Inr x)"

section \<open>The parsed DICOM dataset\<close>

text \<open>
  A pydicom dataset is a set of optional elements; the fields below are the elements the
  modelled functions read. \<open>None\<close> is an element that is absent (\<open>hasattr\<close> is False).
\<close>

record template_item =
  TemplateIdentifier :: "string option"

record sop_ref =
  ReferencedSOPClassUID :: "string option"
  ReferencedSOPInstanceUID :: "string option"
  ReferencedFrameNumber :: "string option"

record series_ref =
  ReferencedSOPSequence :: "sop_ref list option"
  SeriesInstanceUID :: "string option"

record study_ref =
  ReferencedSeriesSequence :: "series_ref list option"

record dataset =
  SOPInstanceUID :: "string option"
  SOPClassUID :: "string option"
  Modality :: "string option"
  SeriesDate :: "string option"
  SeriesTime :: "string option"
  StudyDate :: "string option"
  StudyTime :: "string option"
  ContentTemplateSequence :: "template_item list option"
  CurrentRequestedProcedureEvidenceSequence :: "study_ref list option"
  ImagePositionPatient :: "real list option"
  ImageOrientationPatient :: "real list option"
  PixelSpacing :: "real list option"

definition no_elements :: dataset where
  "no_elements = \<lparr>SOPInstanceUID = None, SOPClassUID = None, Modality = None,
     SeriesDate = None, SeriesTime = None, StudyDate = None, StudyTime = None,
     ContentTemplateSequence = None, CurrentRequestedProcedureEvidenceSequence = None,
     ImagePositionPatient = None, ImageOrientationPatient = None, PixelSpacing = None\<rparr>"

definition UID_EnhancedSRStorage :: string where
  "UID_EnhancedSRStorage = ''1.2.840.10008.5.1.4.1.1.88.22''"

definition UID_ComprehensiveSRStorage :: string where
  "UID_ComprehensiveSRStorage = ''1.2.840.10008.5.1.4.1.1.88.33''"

definition UID_Comprehensive3DSRStorage :: string where
  "UID_Comprehensive3DSRStorage = ''1.2.840.10008.5.1.4.1.1.88.34''"

definition UID_SegmentationStorage :: string where
  "UID_SegmentationStorage = ''1.2.840.10008.5.1.4.1.1.66.4''"

definition UID_RealWorldValueMappingStorage :: string where
  "UID_RealWorldValueMappingStorage = ''1.2.840.10008.5.1.4.1.1.67''"

section \<open>TID1500 recognition\<close>

text \<open>
  What \<open>getDICOMValue\<close> hands back is either a string (an element's value, or the
  default) or a sequence of items; \<open>[0]\<close> then yields a one-character string or an item.
\<close>

datatype pyval = PyStr string | PySeq "template_item list" | PyItem template_item

text \<open>
  Modelled from the spec: \<open>getDICOMValue\<close> is a method of DICOMPluginBase
  (base/DICOMPluginBase.py), which is not among the sources. The spec's error taxonomy
  treats an absent element as tolerated, and every call site passes an optional default
  (\<open>"Unknown"\<close> for the series description) and compares the result with the empty
  string: the method returns the element's value, and the default, \<open>""\<close> when none is
  given, for an absent element.
\<close>

definition getDICOMValue :: "'a option \<Rightarrow> 'a \<Rightarrow> 'a" where
  "getDICOMValue v dflt = (case v of None \<Rightarrow> dflt | Some x \<Rightarrow> x)"

fun subscript0 :: "pyval \<Rightarrow> error + pyval" where
  "subscript0 (PyStr s) = (case s of [] \<Rightarrow> Inl IndexError | c # _ \<Rightarrow> Inr (PyStr [c]))"
| "subscript0 (PySeq xs) = (case xs of [] \<Rightarrow> Inl IndexError | t # _ \<Rightarrow> Inr (PyItem t))"
| "subscript0 (PyItem t) = Inl TypeError"

fun get_TemplateIdentifier :: "pyval \<Rightarrow> error + string" where
  "get_TemplateIdentifier (PyItem t) = attr (TemplateIdentifier t)"
| "get_TemplateIdentifier (PyStr s) = Inl AttributeError"
| "get_TemplateIdentifier (PySeq xs) = Inl AttributeError"

text \<open>The expression inside the \<open>try\<close>: \<open>and\<close> and \<open>or\<close> evaluate left to right and stop early.\<close>

definition isDICOMTID1500_expr :: "dataset \<Rightarrow> error + bool" where
  "isDICOMTID1500_expr ds =
     (if getDICOMValue (Modality ds) '''' \<noteq> ''SR'' then Inr False
      else if \<not> (getDICOMValue (SOPClassUID ds) '''' = UID_EnhancedSRStorage \<or>
                  getDICOMValue (SOPClassUID ds) '''' = UID_ComprehensiveSRStorage \<or>
                  getDICOMValue (SOPClassUID ds) '''' = UID_Comprehensive3DSRStorage)
      then Inr False
      else bind_err
             (subscript0 (getDICOMValue (map_option PySeq (ContentTemplateSequence ds)) (PyStr '''')))
             (\<lambda>t. bind_err (get_TemplateIdentifier t) (\<lambda>ti. Inr (ti = ''1500''))))"

text \<open>\<open>except (AttributeError, IndexError)\<close>: these two become False, any other escapes.\<close>

definition isDICOMTID1500 :: "dataset \<Rightarrow> error + bool" where
  "isDICOMTID1500 ds =
     (case isDICOMTID1500_expr ds of
        Inl AttributeError \<Rightarrow> Inr False
      | Inl IndexError \<Rightarrow> Inr False
      | r \<Rightarrow> r)"

section \<open>Does the report hold a bounding box\<close>

text \<open>
  highdicom's \<open>CodedConcept\<close>: code value, coding scheme designator and code meaning,
  all three present on a concept that highdicom has read. The source reads them both as
  \<open>CodeValue\<close>, \<open>CodingSchemeDesignator\<close>, \<open>CodeMeaning\<close> and through the properties
  \<open>value\<close>, \<open>scheme_designator\<close>, \<open>meaning\<close>.
\<close>

record CodedConcept =
  code_value :: string
  scheme_designator :: string
  meaning :: string

text \<open>A qualitative evaluation: a code content item with a concept name and a coded value.\<close>

record qualitative_evaluation =
  qe_name :: CodedConcept
  qe_value :: CodedConcept

text \<open>The condition of the \<open>if\<close> in the inner loop of \<open>checkIfSRContainsBbox\<close>.\<close>

definition is_bounded_by :: "qualitative_evaluation \<Rightarrow> bool" where
  "is_bounded_by qual_eval \<longleftrightarrow>
     code_value (qe_name qual_eval) = ''130400'' \<and>
     scheme_designator (qe_name qual_eval) = ''DCM'' \<and>
     meaning (qe_name qual_eval) = ''Geometric purpose of region'' \<and>
     code_value (qe_value qual_eval) = ''75958009'' \<and>
     scheme_designator (qe_value qual_eval) = ''SCT'' \<and>
     meaning (qe_value qual_eval) = ''Bounded by''"

text \<open>
  The two nested loops, the flag threaded through: the outer one takes, for each group in
  the order of \<open>get_planar_roi_measurement_groups()\<close>, the list its
  \<open>get_qualitative_evaluations()\<close> returns.
\<close>

fun bbox_flag_evals :: "qualitative_evaluation list \<Rightarrow> int \<Rightarrow> int" where
  "bbox_flag_evals [] flag = flag"
| "bbox_flag_evals (qual_eval # rest) flag =
     bbox_flag_evals rest (if is_bounded_by qual_eval then 1 else 0)"

fun bbox_flag_groups :: "qualitative_evaluation list list \<Rightarrow> int \<Rightarrow> int" where
  "bbox_flag_groups [] flag = flag"
| "bbox_flag_groups (qual_evals # rest) flag =
     bbox_flag_groups rest (bbox_flag_evals qual_evals flag)"

section \<open>Structured-report content items\<close>

text \<open>
  An item of a code sequence as pydicom reads it: each of the three elements may be absent.
\<close>

record code_item =
  CodingSchemeDesignator :: "string option"
  CodeValue :: "string option"
  CodeMeaning :: "string option"

text \<open>
  A node of the content tree (a pydicom dataset, or a highdicom content item, which is a
  subclass of it), with the elements the plugin reads.
\<close>

datatype content_item = ContentItem
  (ConceptNameCodeSequence: "code_item list option")
  (ConceptCodeSequence: "code_item list option")
  (ContentSequence: "content_item list option")
  (RelationshipType: "string option")
  (TextValue: "string option")
  (UID: "string option")
  (PersonName: "string option")
  (GraphicType: "string option")
  (GraphicData: "real list option")
  (PixelOriginInterpretation: "string option")
  (ReferencedSOPSequence: "sop_ref list option")

text \<open>
  highdicom's property \<open>referenced_sop_instance_uid\<close> of an image content item:
  \<open>self.ReferencedSOPSequence[0].ReferencedSOPInstanceUID\<close>.
\<close>

definition referenced_sop_instance_uid :: "content_item \<Rightarrow> error + string" where
  "referenced_sop_instance_uid item =
     bind_err (attr (ReferencedSOPSequence item)) (\<lambda>refs.
     bind_err (first_item refs) (\<lambda>r. attr (ReferencedSOPInstanceUID r)))"

section \<open>The DICOM database and the files behind it\<close>

text \<open>
  \<open>slicer.dicomDatabase\<close> and pydicom's reader are collaborators: \<open>fileForInstance\<close>
  gives a path, the empty string for an instance the database does not know;
  \<open>filesForSeries\<close> the paths of a series; \<open>read_file\<close> the dataset stored at a path
  (\<open>pydicom.read_file\<close> and \<open>pydicom.dcmread\<close> are one function), \<open>None\<close> where no
  file can be read. \<open>read_report\<close> is the same reader on a structured report, whose
  content tree is what the caller reads.
\<close>

record environment =
  fileForInstance :: "string \<Rightarrow> string"
  filesForSeries :: "string \<Rightarrow> string list"
  read_file :: "string \<Rightarrow> dataset option"
  read_report :: "string \<Rightarrow> content_item option"

definition dcmread :: "environment \<Rightarrow> string \<Rightarrow> error + dataset" where
  "dcmread env path = (case read_file env path of None \<Rightarrow> Inl FileNotFoundError | Some ds \<Rightarrow> Inr ds)"

text \<open>\<open>list.index(x)\<close>: the first position of \<open>x\<close>, ValueError when it does not occur.\<close>

fun list_index :: "'a list \<Rightarrow> 'a \<Rightarrow> error + nat" where
  "list_index [] x = Inl ValueError"
| "list_index (y # ys) x =
     (if y = x then Inr 0 else bind_err (list_index ys x) (\<lambda>i. Inr (Suc i)))"

text \<open>The loop of \<open>getIPPFromSOP\<close> over the files of the series: both lists grow together.\<close>

fun read_uids_and_ipps ::
  "environment \<Rightarrow> string list \<Rightarrow> error + (string list \<times> real list list)" where
  "read_uids_and_ipps env [] = Inr ([], [])"
| "read_uids_and_ipps env (file # rest) =
     bind_err (dcmread env file) (\<lambda>ds.
     bind_err (attr (SOPInstanceUID ds)) (\<lambda>uid.
     bind_err (attr (ImagePositionPatient ds)) (\<lambda>ipp.
     bind_err (read_uids_and_ipps env rest) (\<lambda>(uids, ipps).
       Inr (uid # uids, ipp # ipps)))))"

definition getIPPFromSOP :: "environment \<Rightarrow> string \<Rightarrow> string \<Rightarrow> error + real list" where
  "getIPPFromSOP env sop_instance_uid series_instance_uid =
     bind_err (read_uids_and_ipps env (filesForSeries env series_instance_uid))
       (\<lambda>(SOPInstanceUID_list, IPP_list).
     bind_err (list_index SOPInstanceUID_list sop_instance_uid) (\<lambda>index.
       item_at IPP_list index))"

section \<open>Bounding boxes of planar ROI measurement groups\<close>

text \<open>
  A planar ROI measurement group as highdicom presents it: \<open>finding_type\<close> and \<open>roi\<close> are
  \<open>None\<close> when the group has none, and reading an attribute of \<open>None\<close> raises
  AttributeError.
\<close>

record measurement_group =
  tracking_identifier :: string
  tracking_uid :: string
  finding_type :: "CodedConcept option"
  finding_sites :: "content_item list"
  reference_type :: CodedConcept
  roi :: "content_item option"
  qualitative_evaluations :: "qualitative_evaluation list"

text \<open>The report highdicom has read: its dataset and its planar ROI measurement groups.\<close>

record sr_report =
  sr_dataset :: dataset
  planar_roi_measurement_groups :: "measurement_group list"

text \<open>
  \<open>checkIfSRContainsBbox\<close>, from the report highdicom has read: the flag starts at 0 and
  goes through the evaluations of every group, in order.
\<close>

definition checkIfSRContainsBbox :: "sr_report \<Rightarrow> int" where
  "checkIfSRContainsBbox sr =
     bbox_flag_groups (map qualitative_evaluations (planar_roi_measurement_groups sr)) 0"

text \<open>\<open>np.min\<close> and \<open>np.max\<close> of a list: ValueError on an empty one.\<close>

fun np_min :: "real list \<Rightarrow> error + real" where
  "np_min [] = Inl ValueError"
| "np_min (x # xs) = Inr (foldl min x xs)"

fun np_max :: "real list \<Rightarrow> error + real" where
  "np_max [] = Inl ValueError"
| "np_max (x # xs) = Inr (foldl max x xs)"

text \<open>The four subscripts \<open>[bbox[i], bbox[j], bbox[k], bbox[l]]\<close>, read left to right.\<close>

definition four_of :: "real list \<Rightarrow> nat \<Rightarrow> nat \<Rightarrow> nat \<Rightarrow> nat \<Rightarrow> error + real list" where
  "four_of bbox i j k l =
     bind_err (item_at bbox i) (\<lambda>a. bind_err (item_at bbox j) (\<lambda>b.
     bind_err (item_at bbox k) (\<lambda>c. bind_err (item_at bbox l) (\<lambda>d. Inr [a, b, c, d]))))"

record box_geometry =
  min_x :: real
  max_x :: real
  min_y :: real
  max_y :: real
  box_width :: real
  box_height :: real
  box_center_x :: real
  box_center_y :: real

text \<open>
  The arithmetic of the POLYLINE branch, from \<open>min_x\<close> to \<open>center_y\<close>. Numbers are reals:
  the rounding of Python's floats is not modelled.
\<close>

definition bbox_geometry :: "real list \<Rightarrow> error + box_geometry" where
  "bbox_geometry bbox =
     bind_err (bind_err (four_of bbox 0 2 4 6) np_min) (\<lambda>mnx.
     bind_err (bind_err (four_of bbox 0 2 4 6) np_max) (\<lambda>mxx.
     bind_err (bind_err (four_of bbox 1 3 5 7) np_min) (\<lambda>mny.
     bind_err (bind_err (four_of bbox 1 3 5 7) np_max) (\<lambda>mxy.
       let w = mxx - mnx; h = mxy - mny
       in Inr \<lparr>min_x = mnx, max_x = mxx, min_y = mny, max_y = mxy,
               box_width = w, box_height = h,
               box_center_x = mnx + w / 2, box_center_y = mny + h / 2\<rparr>))))"

text \<open>
  The function's local variables that one iteration of the loop over the groups may leave
  to the next: \<open>None\<close> is a variable no statement has bound yet.
\<close>

record bbox_locals =
  var_referenced_sop_instance_uid :: "string option"
  var_bbox :: "real list option"
  var_width :: "real option"
  var_height :: "real option"
  var_center_x :: "real option"
  var_center_y :: "real option"
  var_center_z :: "real option"

definition unbound_locals :: bbox_locals where
  "unbound_locals = \<lparr>var_referenced_sop_instance_uid = None, var_bbox = None,
     var_width = None, var_height = None, var_center_x = None, var_center_y = None,
     var_center_z = None\<rparr>"

text \<open>One dictionary of \<open>poly_infos\<close>.\<close>

record poly_info =
  TrackingIdentifier :: string
  TrackingUID :: string
  info_SOPInstanceUID :: string
  FindingType :: "string list"
  FindingSite :: "string list list"
  polyline :: "(real \<times> real) list"
  width :: real
  height :: real
  center_x :: real
  center_y :: real
  center_z :: real

text \<open>
  A row of the table \<open>createBboxTable\<close> fills, before \<open>np.round\<close> and \<open>str\<close> turn the
  numbers into cell text.
\<close>

record bbox_row =
  row_tracking_identifier :: string
  row_finding_type :: string
  row_finding_site :: string
  row_polyline :: "(real \<times> real) list"
  row_width :: real
  row_height :: real
  row_center :: "real \<times> real \<times> real"

definition bbox_table_row :: "poly_info \<Rightarrow> error + bbox_row" where
  "bbox_table_row p =
     bind_err (first_item (FindingSite p)) (\<lambda>finding_site.
     bind_err (item_at (FindingType p) 2) (\<lambda>type_meaning.
     bind_err (item_at finding_site 2) (\<lambda>site_meaning.
       Inr \<lparr>row_tracking_identifier = TrackingIdentifier p,
            row_finding_type = type_meaning, row_finding_site = site_meaning,
            row_polyline = polyline p, row_width = width p, row_height = height p,
            row_center = (center_x p, center_y p, center_z p)\<rparr>)))"

fun createBboxTable :: "poly_info list \<Rightarrow> error + bbox_row list" where
  "createBboxTable [] = Inr []"
| "createBboxTable (p # ps) =
     bind_err (bbox_table_row p) (\<lambda>r.
     bind_err (createBboxTable ps) (\<lambda>rs. Inr (r # rs)))"

text \<open>The loop over \<open>group.finding_sites\<close>.\<close>

definition finding_site_codes :: "content_item \<Rightarrow> error + string list list" where
  "finding_site_codes finding_site =
     (case ConceptCodeSequence finding_site of
        None \<Rightarrow> Inr []
      | Some [] \<Rightarrow> Inr []
      | Some (c # _) \<Rightarrow>
          bind_err (attr (CodeValue c)) (\<lambda>v.
          bind_err (attr (CodingSchemeDesignator c)) (\<lambda>s.
          bind_err (attr (CodeMeaning c)) (\<lambda>m. Inr [[v, s, m]]))))"

fun collect_finding_sites :: "content_item list \<Rightarrow> error + string list list" where
  "collect_finding_sites [] = Inr []"
| "collect_finding_sites (finding_site # rest) =
     bind_err (finding_site_codes finding_site) (\<lambda>cs.
     bind_err (collect_finding_sites rest) (\<lambda>more. Inr (cs @ more)))"

definition is_image_region :: "CodedConcept \<Rightarrow> bool" where
  "is_image_region rt \<longleftrightarrow>
     code_value rt = ''111030'' \<and> scheme_designator rt = ''DCM'' \<and> meaning rt = ''Image Region''"

text \<open>The state of the loop over the groups: locals, the records so far, what was printed.\<close>

record bbox_state =
  locals :: bbox_locals
  poly_infos :: "poly_info list"
  tableNode :: "bbox_row list option"
  printed :: "string list"

definition initial_bbox_state :: bbox_state where
  "initial_bbox_state = \<lparr>locals = unbound_locals, poly_infos = [], tableNode = None, printed = []\<rparr>"

text \<open>
  \<open>roi.ContentSequence[0].referenced_sop_instance_uid\<close>, the expression inside the
  \<open>try\<close>. Its bare \<open>except\<close> catches whatever the expression raises (\<open>roi\<close> may be
  \<open>None\<close>): a line is printed, and the variable keeps what it held.
\<close>

definition roi_referenced_sop :: "content_item option \<Rightarrow> error + string" where
  "roi_referenced_sop r =
     bind_err (attr r) (\<lambda>roi_item.
     bind_err (attr (ContentSequence roi_item)) (\<lambda>cs.
     bind_err (first_item cs) referenced_sop_instance_uid))"

definition read_referenced_sop :: "content_item option \<Rightarrow> bbox_state \<Rightarrow> bbox_state" where
  "read_referenced_sop r st =
     (case roi_referenced_sop r of
        Inr uid \<Rightarrow> st\<lparr>locals := (locals st)\<lparr>var_referenced_sop_instance_uid := Some uid\<rparr>\<rparr>
      | Inl e \<Rightarrow> st\<lparr>printed := printed st @ [''Cannot access referenced SOPInstanceUID'']\<rparr>)"

text \<open>The body of \<open>if (roi.GraphicType=="POLYLINE")\<close>.\<close>

definition polyline_branch ::
  "environment \<Rightarrow> string \<Rightarrow> content_item \<Rightarrow> bbox_state \<Rightarrow> error + bbox_state" where
  "polyline_branch env series_uid roi_item st =
     bind_err (attr (GraphicData roi_item)) (\<lambda>bbox.
     bind_err (attr (PixelOriginInterpretation roi_item)) (\<lambda>extracted_data_type.
     bind_err (bbox_geometry bbox) (\<lambda>g.
     bind_err (local_var (var_referenced_sop_instance_uid (locals st))) (\<lambda>sop_uid.
     bind_err (getIPPFromSOP env sop_uid series_uid) (\<lambda>ipp.
     bind_err (item_at ipp 2) (\<lambda>z.
       Inr (st\<lparr>locals := (locals st)\<lparr>var_bbox := Some bbox,
              var_width := Some (box_width g), var_height := Some (box_height g),
              var_center_x := Some (box_center_x g), var_center_y := Some (box_center_y g),
              var_center_z := Some z\<rparr>\<rparr>)))))))"

text \<open>The \<open>if\<close> on the reference type and what is nested in it.\<close>

definition region_branch ::
  "environment \<Rightarrow> string \<Rightarrow> measurement_group \<Rightarrow> bbox_state \<Rightarrow> error + bbox_state" where
  "region_branch env series_uid grp st =
     (if is_image_region (reference_type grp) then
        (let st1 = read_referenced_sop (roi grp) st in
         bind_err (attr (roi grp)) (\<lambda>roi_item.
         bind_err (attr (GraphicType roi_item)) (\<lambda>gt.
           if gt = ''POLYLINE'' then polyline_branch env series_uid roi_item st1
           else Inr st1)))
      else Inr st)"

text \<open>The dictionary appended to \<open>poly_infos\<close>: every geometry variable is read here.\<close>

definition make_poly_info ::
  "measurement_group \<Rightarrow> string list \<Rightarrow> string list list \<Rightarrow> bbox_locals \<Rightarrow> error + poly_info" where
  "make_poly_info grp ftype fsites vars =
     bind_err (local_var (var_referenced_sop_instance_uid vars)) (\<lambda>sop_uid.
     bind_err (local_var (var_bbox vars)) (\<lambda>bbox.
     bind_err (item_at bbox 0) (\<lambda>b0. bind_err (item_at bbox 1) (\<lambda>b1.
     bind_err (item_at bbox 2) (\<lambda>b2. bind_err (item_at bbox 3) (\<lambda>b3.
     bind_err (item_at bbox 4) (\<lambda>b4. bind_err (item_at bbox 5) (\<lambda>b5.
     bind_err (item_at bbox 6) (\<lambda>b6. bind_err (item_at bbox 7) (\<lambda>b7.
     bind_err (local_var (var_width vars)) (\<lambda>w.
     bind_err (local_var (var_height vars)) (\<lambda>h.
     bind_err (local_var (var_center_x vars)) (\<lambda>cx.
     bind_err (local_var (var_center_y vars)) (\<lambda>cy.
     bind_err (local_var (var_center_z vars)) (\<lambda>cz.
       Inr \<lparr>TrackingIdentifier = tracking_identifier grp,
            TrackingUID = tracking_uid grp,
            info_SOPInstanceUID = sop_uid,
            FindingType = ftype, FindingSite = fsites,
            polyline = [(b0, b1), (b2, b3), (b4, b5), (b6, b7)],
            width = w, height = h,
            center_x = - cx, center_y = - cy, center_z = cz\<rparr>)))))))))))))))"

text \<open>One iteration of the loop over the groups.\<close>

definition bbox_group ::
  "environment \<Rightarrow> string \<Rightarrow> bbox_state \<Rightarrow> measurement_group \<Rightarrow> error + bbox_state" where
  "bbox_group env series_uid st grp =
     bind_err (attr (finding_type grp)) (\<lambda>ft.
     bind_err (collect_finding_sites (finding_sites grp)) (\<lambda>fsites.
     bind_err (region_branch env series_uid grp st) (\<lambda>st1.
     bind_err (make_poly_info grp [code_value ft, scheme_designator ft, meaning ft]
                 fsites (locals st1)) (\<lambda>p.
     bind_err (createBboxTable (poly_infos st1 @ [p])) (\<lambda>t.
       Inr (st1\<lparr>poly_infos := poly_infos st1 @ [p], tableNode := Some t\<rparr>))))))"

fun bbox_groups ::
  "environment \<Rightarrow> string \<Rightarrow> bbox_state \<Rightarrow> measurement_group list \<Rightarrow> error + bbox_state" where
  "bbox_groups env series_uid st [] = Inr st"
| "bbox_groups env series_uid st (grp # rest) =
     bind_err (bbox_group env series_uid st grp) (\<lambda>st1. bbox_groups env series_uid st1 rest)"

text \<open>
  \<open>sr.CurrentRequestedProcedureEvidenceSequence[0].ReferencedSeriesSequence[0].SeriesInstanceUID\<close>
\<close>

definition referenced_series_instance_uid :: "dataset \<Rightarrow> error + string" where
  "referenced_series_instance_uid ds =
     bind_err (attr (CurrentRequestedProcedureEvidenceSequence ds)) (\<lambda>studies.
     bind_err (first_item studies) (\<lambda>study.
     bind_err (attr (ReferencedSeriesSequence study)) (\<lambda>series.
     bind_err (first_item series) (\<lambda>s. attr (SeriesInstanceUID s)))))"

text \<open>
  \<open>extractBboxMetadataToVtkTableNode\<close>, from the report highdicom has read: the records,
  the table, and the lines printed on the way. \<open>tableNode\<close> is bound inside the loop
  only.
\<close>

definition extractBboxMetadataToVtkTableNode ::
  "environment \<Rightarrow> sr_report \<Rightarrow> error + (poly_info list \<times> bbox_row list \<times> string list)" where
  "extractBboxMetadataToVtkTableNode env sr =
     bind_err (referenced_series_instance_uid (sr_dataset sr)) (\<lambda>series_uid.
     bind_err (bbox_groups env series_uid initial_bbox_state (planar_roi_measurement_groups sr))
       (\<lambda>st.
     bind_err (local_var (tableNode st)) (\<lambda>t. Inr (poly_infos st, t, printed st))))"

text \<open>
  A group has a bounding-box ROI when its reference type is "Image Region" and its ROI
  has graphic type POLYLINE: the one case in which the loop assigns the geometry
  variables.
\<close>

definition has_polyline_roi :: "measurement_group \<Rightarrow> bool" where
  "has_polyline_roi grp \<longleftrightarrow>
     is_image_region (reference_type grp) \<and>
     (case roi grp of None \<Rightarrow> False | Some r \<Rightarrow> GraphicType r = Some ''POLYLINE'')"

text \<open>The geometry a record of \<open>poly_infos\<close> carries.\<close>

definition info_geometry ::
  "poly_info \<Rightarrow> (real \<times> real) list \<times> real \<times> real \<times> real \<times> real \<times> real" where
  "info_geometry p = (polyline p, width p, height p, center_x p, center_y p, center_z p)"

text \<open>
  The referenced SOP instance UID in the record of a group without a bounding-box ROI,
  \<open>previous\<close> being what the variable held: an "Image Region" group whose reference
  can be read brings its own, any other group leaves the variable alone.
\<close>

definition record_sop_uid :: "measurement_group \<Rightarrow> string \<Rightarrow> string" where
  "record_sop_uid grp previous =
     (if is_image_region (reference_type grp)
      then (case roi_referenced_sop (roi grp) of Inr uid \<Rightarrow> uid | Inl e \<Rightarrow> previous)
      else previous)"

text \<open>
  What holds of the loop's state after an iteration that did not raise: every variable
  the record reads is bound, the last record was built from those values, and the table
  is the one made from the records.
\<close>

definition locals_match_last :: "bbox_state \<Rightarrow> bool" where
  "locals_match_last st \<longleftrightarrow>
     poly_infos st \<noteq> [] \<and>
     (\<exists>u b w h cx cy cz t.
        locals st = \<lparr>var_referenced_sop_instance_uid = Some u, var_bbox = Some b,
                      var_width = Some w, var_height = Some h, var_center_x = Some cx,
                      var_center_y = Some cy, var_center_z = Some cz\<rparr> \<and>
        8 \<le> length b \<and>
        info_SOPInstanceUID (last (poly_infos st)) = u \<and>
        info_geometry (last (poly_infos st)) =
          ([(b ! 0, b ! 1), (b ! 2, b ! 3), (b ! 4, b ! 5), (b ! 6, b ! 7)],
           w, h, - cx, - cy, cz) \<and>
        tableNode st = Some t \<and> createBboxTable (poly_infos st) = Inr t)"

text \<open>
  Every read of a group that is not a read of a geometry variable succeeds: the finding
  type is there, the finding sites can be collected, and an "Image Region" group has a
  ROI with a graphic type.
\<close>

definition group_metadata_readable :: "measurement_group \<Rightarrow> bool" where
  "group_metadata_readable grp \<longleftrightarrow>
     finding_type grp \<noteq> None \<and>
     \<not> isl (collect_finding_sites (finding_sites grp)) \<and>
     (if is_image_region (reference_type grp)
      then (case roi grp of None \<Rightarrow> False | Some r \<Rightarrow> GraphicType r \<noteq> None)
      else True)"

text \<open>The group has a finding site with a code: what \<open>createBboxTable\<close> needs of a record.\<close>

definition has_coded_finding_site :: "measurement_group \<Rightarrow> bool" where
  "has_coded_finding_site grp \<longleftrightarrow>
     (case collect_finding_sites (finding_sites grp) of
        Inl e \<Rightarrow> False | Inr [] \<Rightarrow> False | Inr (c # cs) \<Rightarrow> True)"

section \<open>The concept matcher\<close>

text \<open>\<open>self.codings\<close>: concept key to scheme designator and code value.\<close>

definition codings :: "string \<Rightarrow> (string \<times> string) option" where
  "codings = map_of
     [(''imagingMeasurementReport'', (''DCM'', ''126000'')),
      (''personObserver'', (''DCM'', ''121008'')),
      (''imagingMeasurements'', (''DCM'', ''126010'')),
      (''measurementGroup'', (''DCM'', ''125007'')),
      (''trackingIdentifier'', (''DCM'', ''112039'')),
      (''trackingUniqueIdentifier'', (''DCM'', ''112040'')),
      (''findingSite'', (''SRT'', ''G-C0E3'')),
      (''length'', (''SRT'', ''G-D7FE''))]"

text \<open>
  \<open>isConcept\<close>: the first item of the concept name code sequence is read without any
  guard; \<open>and\<close> reads the code value only when the scheme designators agree.
\<close>

definition isConcept :: "content_item \<Rightarrow> string \<Rightarrow> error + bool" where
  "isConcept item coding =
     bind_err (attr (ConceptNameCodeSequence item)) (\<lambda>codes.
     bind_err (first_item codes) (\<lambda>code.
     bind_err (attr (CodingSchemeDesignator code)) (\<lambda>scheme.
     bind_err (dict_get (codings coding)) (\<lambda>entry.
       if scheme \<noteq> fst entry then Inr False
       else bind_err (attr (CodeValue code)) (\<lambda>v. Inr (v = snd entry))))))"

section \<open>Length measurements as rulers\<close>

text \<open>The dictionary the tree walk fills for a measurement group: every key is optional.\<close>

record measurement =
  trackingIdentifier :: "string option"
  trackingUniqueIdentifier :: "string option"
  findingSite :: "string option"
  measurement_polyline :: "real list option"
  referencedSOPInstanceUID :: "string option"

definition empty_measurement :: measurement where
  "empty_measurement = \<lparr>trackingIdentifier = None, trackingUniqueIdentifier = None,
     findingSite = None, measurement_polyline = None, referencedSOPInstanceUID = None\<rparr>"

text \<open>A \<open>for\<close> loop whose body may raise: the first exception ends it.\<close>

fun for_each :: "('a \<Rightarrow> 's \<Rightarrow> error + 's) \<Rightarrow> 'a list \<Rightarrow> 's \<Rightarrow> error + 's" where
  "for_each body [] s = Inr s"
| "for_each body (x # xs) s = bind_err (body x s) (for_each body xs)"

text \<open>The loops of the tree walk, innermost first; the string list is what was printed.\<close>

definition walk_reference :: "sop_ref \<Rightarrow> measurement \<times> string list \<Rightarrow> error + measurement \<times> string list" where
  "walk_reference reference = (\<lambda>(m, out).
     bind_err (attr (ReferencedSOPInstanceUID reference)) (\<lambda>uid.
       Inr (m\<lparr>referencedSOPInstanceUID := Some uid\<rparr>,
            (case ReferencedFrameNumber reference of
               None \<Rightarrow> out
             | Some n \<Rightarrow> if n \<noteq> ''1''
                 then out @ [''Error - only single frame references supported''] else out))))"

definition walk_selection :: "content_item \<Rightarrow> measurement \<times> string list \<Rightarrow> error + measurement \<times> string list" where
  "walk_selection selectionItem s =
     bind_err (attr (RelationshipType selectionItem)) (\<lambda>rt.
       if rt = ''SELECTED FROM''
       then bind_err (attr (ReferencedSOPSequence selectionItem)) (\<lambda>refs.
              for_each walk_reference refs s)
       else Inr s)"

definition walk_length_item :: "content_item \<Rightarrow> measurement \<times> string list \<Rightarrow> error + measurement \<times> string list" where
  "walk_length_item lengthItem = (\<lambda>(m, out).
     bind_err (attr (GraphicData lengthItem)) (\<lambda>gd.
     bind_err (attr (ContentSequence lengthItem)) (\<lambda>items.
       for_each walk_selection items (m\<lparr>measurement_polyline := Some gd\<rparr>, out))))"

definition walk_measurement_item :: "content_item \<Rightarrow> measurement \<times> string list \<Rightarrow> error + measurement \<times> string list" where
  "walk_measurement_item measurementItem = (\<lambda>(m, out).
     bind_err (isConcept measurementItem ''trackingIdentifier'') (\<lambda>c1.
     bind_err (if c1 then bind_err (attr (TextValue measurementItem))
                            (\<lambda>v. Inr (m\<lparr>trackingIdentifier := Some v\<rparr>))
               else Inr m) (\<lambda>m1.
     bind_err (isConcept measurementItem ''trackingUniqueIdentifier'') (\<lambda>c2.
     bind_err (if c2 then bind_err (attr (UID measurementItem))
                            (\<lambda>v. Inr (m1\<lparr>trackingUniqueIdentifier := Some v\<rparr>))
               else Inr m1) (\<lambda>m2.
     bind_err (isConcept measurementItem ''findingSite'') (\<lambda>c3.
     bind_err (if c3 then bind_err (attr (ConceptCodeSequence measurementItem)) (\<lambda>codes.
                          bind_err (first_item codes) (\<lambda>code.
                          bind_err (attr (CodeMeaning code)) (\<lambda>v.
                            Inr (m2\<lparr>findingSite := Some v\<rparr>))))
               else Inr m2) (\<lambda>m3.
     bind_err (isConcept measurementItem ''length'') (\<lambda>c4.
       if c4 then bind_err (attr (ContentSequence measurementItem)) (\<lambda>items.
                    for_each walk_length_item items (m3, out))
       else Inr (m3, out)))))))))"

definition walk_content_item :: "content_item \<Rightarrow> measurement list \<times> string list \<Rightarrow> error + measurement list \<times> string list" where
  "walk_content_item contentItem = (\<lambda>(ms, out).
     bind_err (isConcept contentItem ''measurementGroup'') (\<lambda>c.
       if c then bind_err (attr (ContentSequence contentItem)) (\<lambda>items.
                 bind_err (for_each walk_measurement_item items (empty_measurement, out))
                   (\<lambda>(m, out1). Inr (ms @ [m], out1)))
       else Inr (ms, out)))"

text \<open>\<open>contents\<close>: the observer's name, when one was met, and the measurements.\<close>

record contents =
  personObserver :: "string option"
  measurements :: "measurement list"

definition walk_item :: "content_item \<Rightarrow> contents \<times> string list \<Rightarrow> error + contents \<times> string list" where
  "walk_item item = (\<lambda>(cts, out).
     bind_err (isConcept item ''personObserver'') (\<lambda>c1.
     bind_err (if c1 then bind_err (attr (PersonName item))
                            (\<lambda>v. Inr (cts\<lparr>personObserver := Some v\<rparr>))
               else Inr cts) (\<lambda>cts1.
     bind_err (isConcept item ''imagingMeasurements'') (\<lambda>c2.
       if c2 then bind_err (attr (ContentSequence item)) (\<lambda>items.
                 bind_err (for_each walk_content_item items (measurements cts1, out))
                   (\<lambda>(ms, out1). Inr (cts1\<lparr>measurements := ms\<rparr>, out1)))
       else Inr (cts1, out)))))"

text \<open>
  numpy on one-dimensional arrays: an elementwise operation takes two arrays of equal
  length, or stretches an array of length one; other shapes raise ValueError.
\<close>

definition np_elementwise ::
  "(real \<Rightarrow> real \<Rightarrow> real) \<Rightarrow> real list \<Rightarrow> real list \<Rightarrow> error + real list" where
  "np_elementwise f xs ys =
     (if length xs = length ys then Inr (map2 f xs ys)
      else if length xs = 1 then Inr (map (f (hd xs)) ys)
      else if length ys = 1 then Inr (map (\<lambda>x. f x (hd ys)) xs)
      else Inl ValueError)"

definition np_scale :: "real \<Rightarrow> real list \<Rightarrow> real list" where
  "np_scale k xs = map (\<lambda>x. x * k) xs"

definition lpsToRAS :: "real list" where
  "lpsToRAS = [-1, -1, 1]"

text \<open>\<open>origin + col * alongColumnVector + row * alongRowVector\<close>, before the sign flip.\<close>

definition point_in_patient ::
  "real list \<Rightarrow> real list \<Rightarrow> real list \<Rightarrow> real \<Rightarrow> real \<Rightarrow> error + real list" where
  "point_in_patient origin alongColumnVector alongRowVector col row =
     bind_err (np_elementwise (+) origin (np_scale col alongColumnVector)) (\<lambda>a.
       np_elementwise (+) a (np_scale row alongRowVector))"

text \<open>\<open>col1,row1,col2,row2 = measurement['polyline']\<close>: ValueError unless four values.\<close>

definition unpack4 :: "real list \<Rightarrow> error + real \<times> real \<times> real \<times> real" where
  "unpack4 xs = (case xs of [a, b, c, d] \<Rightarrow> Inr (a, b, c, d) | _ \<Rightarrow> Inl ValueError)"

text \<open>
  From the lookup of the referenced image to the two control points: the statements of
  the second loop that can raise once the markups node exists and is named.
\<close>

definition ruler_points ::
  "environment \<Rightarrow> measurement \<Rightarrow> real list \<Rightarrow> error + real list \<times> real list" where
  "ruler_points env m pl =
     bind_err (dict_get (referencedSOPInstanceUID m)) (\<lambda>uid.
       let referenceFilePath = fileForInstance env uid in
       if referenceFilePath = []
       then Inl (Exception (''Referenced image is not found in the database (referencedSOPInstanceUID='' @ uid @
                   ''). Polyline point positions cannot be determined in 3D.''))
       else
     bind_err (dcmread env referenceFilePath) (\<lambda>reference.
     bind_err (attr (ImagePositionPatient reference)) (\<lambda>origin.
     bind_err (attr (ImageOrientationPatient reference)) (\<lambda>iop.
     bind_err (attr (ImageOrientationPatient reference)) (\<lambda>iop'.
     bind_err (attr (PixelSpacing reference)) (\<lambda>ps.
     bind_err (item_at ps 1) (\<lambda>ps1.
     bind_err (attr (PixelSpacing reference)) (\<lambda>ps'.
     bind_err (item_at ps' 0) (\<lambda>ps0.
       let alongColumnVector = np_scale ps1 (take 3 iop);
           alongRowVector = np_scale ps0 (drop 3 iop')
       in
     bind_err (unpack4 pl) (\<lambda>(col1, row1, col2, row2).
     bind_err (point_in_patient origin alongColumnVector alongRowVector col1 row1) (\<lambda>q1.
     bind_err (np_elementwise (*) q1 lpsToRAS) (\<lambda>p1.
     bind_err (point_in_patient origin alongColumnVector alongRowVector col2 row2) (\<lambda>q2.
     bind_err (np_elementwise (*) q2 lpsToRAS) (\<lambda>p2.
       Inr (p1, p2)))))))))))))))"

text \<open>
  A line node of the scene: its name (\<open>None\<close> until \<open>SetName\<close>) and its control points.
  Locking, colour and the subject hierarchy are left to the scene.
\<close>

record markups_node =
  node_name :: "string option"
  control_points :: "real list list"

text \<open>
  One iteration of the second loop. The node is added to the scene before anything can
  raise, so an exception leaves it there without control points.
\<close>

definition place_measurement ::
  "environment \<Rightarrow> contents \<Rightarrow> measurement \<Rightarrow> markups_node list \<Rightarrow> markups_node list \<times> error option" where
  "place_measurement env cts m scene =
     (case measurement_polyline m of
        None \<Rightarrow> (scene, None)
      | Some pl \<Rightarrow>
          (case personObserver cts of
             None \<Rightarrow> (scene @ [\<lparr>node_name = None, control_points = []\<rparr>], Some KeyError)
           | Some observer \<Rightarrow>
               (case ruler_points env m pl of
                  Inl e \<Rightarrow> (scene @ [\<lparr>node_name = Some observer, control_points = []\<rparr>], Some e)
                | Inr (p1, p2) \<Rightarrow>
                    (scene @ [\<lparr>node_name = Some observer, control_points = [p1, p2]\<rparr>], None))))"

fun place_measurements ::
  "environment \<Rightarrow> contents \<Rightarrow> measurement list \<Rightarrow> markups_node list \<Rightarrow> markups_node list \<times> error option" where
  "place_measurements env cts [] scene = (scene, None)"
| "place_measurements env cts (m # ms) scene =
     (case place_measurement env cts m scene of
        (scene1, Some e) \<Rightarrow> (scene1, Some e)
      | (scene1, None) \<Rightarrow> place_measurements env cts ms scene1)"

text \<open>
  What a call leaves behind: the scene, the lines printed, the exception if one escaped.
  The lines a tree walk printed before it raised are not kept.
\<close>

record load_outcome =
  scene_nodes :: "markups_node list"
  printed_lines :: "string list"
  raised :: "error option"

definition walk_report :: "content_item \<Rightarrow> error + contents \<times> string list" where
  "walk_report sr =
     bind_err (attr (ContentSequence sr)) (\<lambda>items.
       for_each walk_item items (\<lparr>personObserver = None, measurements = []\<rparr>, []))"

definition loadAdditionalMeasurements ::
  "environment \<Rightarrow> string \<Rightarrow> markups_node list \<Rightarrow> load_outcome" where
  "loadAdditionalMeasurements env srUID scene =
     (case read_report env (fileForInstance env srUID) of
        None \<Rightarrow> \<lparr>scene_nodes = scene, printed_lines = [], raised = Some FileNotFoundError\<rparr>
      | Some sr \<Rightarrow>
          (case isConcept sr ''imagingMeasurementReport'' of
             Inl e \<Rightarrow> \<lparr>scene_nodes = scene, printed_lines = [], raised = Some e\<rparr>
           | Inr False \<Rightarrow> \<lparr>scene_nodes = scene, printed_lines = [], raised = None\<rparr>
           | Inr True \<Rightarrow>
               (case walk_report sr of
                  Inl e \<Rightarrow> \<lparr>scene_nodes = scene, printed_lines = [], raised = Some e\<rparr>
                | Inr (cts, out) \<Rightarrow>
                    (case place_measurements env cts (measurements cts) scene of
                       (scene1, r) \<Rightarrow>
                         \<lparr>scene_nodes = scene1, printed_lines = out, raised = r\<rparr>))))"

section \<open>The reference resolver\<close>

text \<open>
  The loadable's reference lists. \<open>ReferencedSegmentationInstanceUIDs\<close> is a dict from a
  report's SOP instance UID to the segmentation series it references, kept in insertion
  order; \<open>referencedInstanceUIDs\<close> ends as \<open>list(set(...))\<close>: its distinct elements, in
  an order Python does not fix, for which \<open>remdups\<close> stands.
\<close>

record loadable =
  referencedSegInstanceUIDs :: "string list"
  ReferencedSegmentationInstanceUIDs :: "(string \<times> string list) list"
  ReferencedRWVMSeriesInstanceUIDs :: "string list"
  ReferencedOtherInstanceUIDs :: "string list"
  referencedInstanceUIDs :: "string list"

text \<open>\<open>d[k] = v\<close>: the value of an existing key is replaced where it stands, a new key goes last.\<close>

fun dict_set :: "('k \<times> 'v) list \<Rightarrow> 'k \<Rightarrow> 'v \<Rightarrow> ('k \<times> 'v) list" where
  "dict_set [] k v = [(k, v)]"
| "dict_set ((k', v') # d) k v = (if k' = k then (k, v) # d else (k', v') # dict_set d k v)"

text \<open>\<open>d[k].append(x)\<close> for a key that is there.\<close>

definition dict_append :: "('k \<times> 'v list) list \<Rightarrow> 'k \<Rightarrow> 'v \<Rightarrow> ('k \<times> 'v list) list" where
  "dict_append d k x = map (\<lambda>(k', vs). if k' = k then (k', vs @ [x]) else (k', vs)) d"

text \<open>The body of the innermost loop: one referenced SOP of one referenced series.\<close>

definition add_reference :: "string \<Rightarrow> series_ref \<Rightarrow> sop_ref \<Rightarrow> loadable \<Rightarrow> error + loadable" where
  "add_reference uid referencedSeriesSequence refSOPSequence l =
     bind_err (attr (ReferencedSOPClassUID refSOPSequence)) (\<lambda>cls.
       if cls = UID_SegmentationStorage then
         bind_err (attr (SeriesInstanceUID referencedSeriesSequence)) (\<lambda>series.
           Inr (l\<lparr>ReferencedSegmentationInstanceUIDs :=
                  dict_append (ReferencedSegmentationInstanceUIDs l) uid series\<rparr>))
       else if cls = UID_RealWorldValueMappingStorage then
         bind_err (attr (SeriesInstanceUID referencedSeriesSequence)) (\<lambda>series.
           Inr (l\<lparr>ReferencedRWVMSeriesInstanceUIDs :=
                  ReferencedRWVMSeriesInstanceUIDs l @ [series]\<rparr>))
       else
         bind_err (attr (ReferencedSOPInstanceUID refSOPSequence)) (\<lambda>inst.
           Inr (l\<lparr>ReferencedOtherInstanceUIDs := ReferencedOtherInstanceUIDs l @ [inst]\<rparr>)))"

definition add_series :: "string \<Rightarrow> series_ref \<Rightarrow> loadable \<Rightarrow> error + loadable" where
  "add_series uid referencedSeriesSequence l =
     bind_err (attr (series_ref.ReferencedSOPSequence referencedSeriesSequence)) (\<lambda>sops.
       for_each (add_reference uid referencedSeriesSequence) sops l)"

definition add_study :: "string \<Rightarrow> study_ref \<Rightarrow> loadable \<Rightarrow> error + loadable" where
  "add_study uid refSeriesSequence l =
     bind_err (attr (ReferencedSeriesSequence refSeriesSequence)) (\<lambda>series.
       for_each (add_series uid) series l)"

text \<open>
  The segmentation plugin is a collaborator: \<open>examine\<close> takes the files of a series and
  gives, for each loadable it finds, that loadable's referenced instance UIDs.
\<close>

definition add_segmentation ::
  "environment \<Rightarrow> (string list \<Rightarrow> string list list) \<Rightarrow> string \<Rightarrow> loadable \<Rightarrow> loadable" where
  "add_segmentation env examine segSeriesInstanceUID l =
     l\<lparr>referencedInstanceUIDs :=
         referencedInstanceUIDs l @ concat (examine (filesForSeries env segSeriesInstanceUID))\<rparr>"

text \<open>The body of the loop over the datasets.\<close>

definition add_dataset ::
  "environment \<Rightarrow> (string list \<Rightarrow> string list list) \<Rightarrow> dataset \<Rightarrow> loadable \<Rightarrow> error + loadable" where
  "add_dataset env examine ds l =
     (let uid = getDICOMValue (SOPInstanceUID ds) [];
          l1 = l\<lparr>ReferencedSegmentationInstanceUIDs :=
                  dict_set (ReferencedSegmentationInstanceUIDs l) uid []\<rparr>
      in bind_err (case CurrentRequestedProcedureEvidenceSequence ds of
                     None \<Rightarrow> Inr l1
                   | Some studies \<Rightarrow> for_each (add_study uid) studies l1) (\<lambda>l2.
           bind_err (dict_get (map_of (ReferencedSegmentationInstanceUIDs l2) uid)) (\<lambda>segs.
             Inr (fold (add_segmentation env examine) segs l2))))"

text \<open>
  After the loop \<open>uid\<close> is what the last iteration left in it: unbound for no datasets.
  The result is the loadable with the warnings logged; debug lines are not kept.
\<close>

definition createLoadableAndAddReferences ::
  "environment \<Rightarrow> (string list \<Rightarrow> string list list) \<Rightarrow> dataset list \<Rightarrow> error + loadable \<times> string list" where
  "createLoadableAndAddReferences env examine datasets =
     bind_err (for_each (add_dataset env examine) datasets
                 \<lparr>referencedSegInstanceUIDs = [], ReferencedSegmentationInstanceUIDs = [],
                  ReferencedRWVMSeriesInstanceUIDs = [], ReferencedOtherInstanceUIDs = [],
                  referencedInstanceUIDs = []\<rparr>) (\<lambda>l.
     let l1 = l\<lparr>referencedInstanceUIDs := remdups (referencedInstanceUIDs l)\<rparr> in
     bind_err (local_var (if datasets = [] then None
                          else Some (getDICOMValue (SOPInstanceUID (last datasets)) []))) (\<lambda>uid.
     bind_err (dict_get (map_of (ReferencedSegmentationInstanceUIDs l1) uid)) (\<lambda>segs.
     let w1 = (if length segs > 1
               then [''SR references more than one SEG. This has not been tested!''] else []);
         l2 = l1\<lparr>referencedSegInstanceUIDs :=
                  referencedSegInstanceUIDs l1 @ map fst (ReferencedSegmentationInstanceUIDs l1)\<rparr>;
         w2 = (if length (ReferencedRWVMSeriesInstanceUIDs l2) > 1
               then [''SR references more than one RWVM. This has not been tested!''] else [])
     in Inr (l2, w1 @ w2))))"

section \<open>Ordering reports by date and time\<close>

datatype datetime = DateTime (year: nat) (month: nat) (day: nat) (hour: nat) (minute: nat) (second: nat)

text \<open>What \<open>getDateTime\<close> returns: a datetime, or the empty string.\<close>

datatype sort_key = EmptyString | Parsed datetime

text \<open>
  \<open>datetime.datetime.strptime(s, '%Y%m%d%H%M%S')\<close>, as CPython's \<open>_strptime\<close> does it.
  The format becomes a regular expression, one group per directive, matched at the start
  of the string with backtracking, alternatives in the order written:
  \<^item> \<open>%Y\<close> is four digits;
  \<^item> \<open>%m\<close> is \<open>1[0-2]|0[1-9]|[1-9]\<close>;
  \<^item> \<open>%d\<close> is \<open>3[0-1]|[1-2]\d|0[1-9]|[1-9]| [1-9]\<close>;
  \<^item> \<open>%H\<close> is \<open>2[0-3]|[0-1]\d|\d\<close>;
  \<^item> \<open>%M\<close> is \<open>[0-5]\d|\d\<close>;
  \<^item> \<open>%S\<close> is \<open>6[0-1]|[0-5]\d|\d\<close>.
  No match is a ValueError, text left after the first match is a ValueError, and so is a
  date or time that \<open>datetime\<close> refuses (day beyond the month, second above 59).
\<close>

definition digit_value :: "char \<Rightarrow> nat option" where
  "digit_value c =
     (let n = (of_char c :: nat) in if 48 \<le> n \<and> n \<le> 57 then Some (n - 48) else None)"

text \<open>A two-character alternative and a one-character alternative of a group.\<close>

definition two_chars :: "(char \<Rightarrow> char \<Rightarrow> nat option) \<Rightarrow> string \<Rightarrow> (nat \<times> string) list" where
  "two_chars f s = (case s of a # b # rest \<Rightarrow>
       (case f a b of Some n \<Rightarrow> [(n, rest)] | None \<Rightarrow> []) | _ \<Rightarrow> [])"

definition two_digits :: "(nat \<Rightarrow> nat \<Rightarrow> bool) \<Rightarrow> string \<Rightarrow> (nat \<times> string) list" where
  "two_digits ok = two_chars (\<lambda>a b.
       case (digit_value a, digit_value b) of
         (Some x, Some y) \<Rightarrow> if ok x y then Some (10 * x + y) else None
       | _ \<Rightarrow> None)"

definition one_digit :: "(nat \<Rightarrow> bool) \<Rightarrow> string \<Rightarrow> (nat \<times> string) list" where
  "one_digit ok s = (case s of a # rest \<Rightarrow>
       (case digit_value a of Some x \<Rightarrow> if ok x then [(x, rest)] else [] | None \<Rightarrow> [])
     | _ \<Rightarrow> [])"

definition group_Y :: "string \<Rightarrow> (nat \<times> string) list" where
  "group_Y s = (case s of a # b # c # d # rest \<Rightarrow>
       (case (digit_value a, digit_value b, digit_value c, digit_value d) of
          (Some w, Some x, Some y, Some z) \<Rightarrow> [(1000 * w + 100 * x + 10 * y + z, rest)]
        | _ \<Rightarrow> [])
     | _ \<Rightarrow> [])"

definition group_m :: "string \<Rightarrow> (nat \<times> string) list" where
  "group_m s = two_digits (\<lambda>x y. x = 1 \<and> y \<le> 2) s @ two_digits (\<lambda>x y. x = 0 \<and> 1 \<le> y) s @
               one_digit (\<lambda>x. 1 \<le> x) s"

definition group_d :: "string \<Rightarrow> (nat \<times> string) list" where
  "group_d s = two_digits (\<lambda>x y. x = 3 \<and> y \<le> 1) s @
               two_digits (\<lambda>x y. 1 \<le> x \<and> x \<le> 2) s @
               two_digits (\<lambda>x y. x = 0 \<and> 1 \<le> y) s @
               one_digit (\<lambda>x. 1 \<le> x) s @
               two_chars (\<lambda>a b. if a = CHR '' '' then
                   (case digit_value b of Some y \<Rightarrow> if 1 \<le> y then Some y else None
                    | None \<Rightarrow> None) else None) s"

definition group_H :: "string \<Rightarrow> (nat \<times> string) list" where
  "group_H s = two_digits (\<lambda>x y. x = 2 \<and> y \<le> 3) s @ two_digits (\<lambda>x y. x \<le> 1) s @
               one_digit (\<lambda>x. True) s"

definition group_M :: "string \<Rightarrow> (nat \<times> string) list" where
  "group_M s = two_digits (\<lambda>x y. x \<le> 5) s @ one_digit (\<lambda>x. True) s"

definition group_S :: "string \<Rightarrow> (nat \<times> string) list" where
  "group_S s = two_digits (\<lambda>x y. x = 6 \<and> y \<le> 1) s @ two_digits (\<lambda>x y. x \<le> 5) s @
               one_digit (\<lambda>x. True) s"

text \<open>Every way the expression matches a prefix, in the order backtracking finds them.\<close>

definition matches :: "string \<Rightarrow> (datetime \<times> string) list" where
  "matches s =
     concat (map (\<lambda>(Y, r1).
     concat (map (\<lambda>(m, r2).
     concat (map (\<lambda>(d, r3).
     concat (map (\<lambda>(H, r4).
     concat (map (\<lambda>(M, r5).
             map (\<lambda>(S, r6). (DateTime Y m d H M S, r6)) (group_S r5))
       (group_M r4))) (group_H r3))) (group_d r2))) (group_m r1))) (group_Y s))"

definition is_leap :: "nat \<Rightarrow> bool" where
  "is_leap y \<longleftrightarrow> y mod 4 = 0 \<and> (y mod 100 \<noteq> 0 \<or> y mod 400 = 0)"

definition days_in_month :: "nat \<Rightarrow> nat \<Rightarrow> nat" where
  "days_in_month y m =
     (if m = 2 then (if is_leap y then 29 else 28)
      else if m = 4 \<or> m = 6 \<or> m = 9 \<or> m = 11 then 30 else 31)"

definition valid_datetime :: "datetime \<Rightarrow> bool" where
  "valid_datetime t \<longleftrightarrow>
     1 \<le> year t \<and> year t \<le> 9999 \<and> 1 \<le> month t \<and> month t \<le> 12 \<and>
     1 \<le> day t \<and> day t \<le> days_in_month (year t) (month t) \<and>
     hour t \<le> 23 \<and> minute t \<le> 59 \<and> second t \<le> 59"

definition strptime :: "string \<Rightarrow> error + datetime" where
  "strptime s =
     (case matches s of
        [] \<Rightarrow> Inl ValueError
      | (t, rest) # _ \<Rightarrow>
          if rest \<noteq> [] then Inl ValueError
          else if valid_datetime t then Inr t else Inl ValueError)"

text \<open>\<open>getDateTime\<close>: the study branch takes the study date for the time as well.\<close>

definition getDateTime :: "environment \<Rightarrow> string \<Rightarrow> error + sort_key" where
  "getDateTime env uid =
     bind_err (dcmread env (fileForInstance env uid)) (\<lambda>ds.
       let (date, time) =
             (if SeriesDate ds \<noteq> None \<and> SeriesTime ds \<noteq> None
              then (the (SeriesDate ds), the (SeriesTime ds))
              else if StudyDate ds \<noteq> None \<and> StudyTime ds \<noteq> None
              then (the (StudyDate ds), the (StudyDate ds))
              else ([], []))
       in (case strptime (date @ time) of
             Inr t \<Rightarrow> Inr (Parsed t)
           | Inl ValueError \<Rightarrow> Inr EmptyString
           | Inl e \<Rightarrow> Inl e))"

text \<open>\<open>a < b\<close> on the keys: two datetimes, two strings, or a TypeError.\<close>

definition datetime_lt :: "datetime \<Rightarrow> datetime \<Rightarrow> bool" where
  "datetime_lt a b \<longleftrightarrow>
     year a < year b \<or> year a = year b \<and>
     (month a < month b \<or> month a = month b \<and>
     (day a < day b \<or> day a = day b \<and>
     (hour a < hour b \<or> hour a = hour b \<and>
     (minute a < minute b \<or> minute a = minute b \<and> second a < second b))))"

fun key_lt :: "sort_key \<Rightarrow> sort_key \<Rightarrow> error + bool" where
  "key_lt (Parsed a) (Parsed b) = Inr (datetime_lt a b)"
| "key_lt EmptyString EmptyString = Inr False"
| "key_lt (Parsed a) EmptyString = Inl TypeError"
| "key_lt EmptyString (Parsed b) = Inl TypeError"

text \<open>
  \<open>sorted(xs, key=f)\<close>: Python's sort is stable and lets the exception of a comparison
  escape. With keys of two kinds that cannot be compared with each other, a list that
  holds both kinds always meets such a comparison; an insertion sort that keeps equal
  keys in their order gives the same results and the same exceptions.
\<close>

fun insert_by_key :: "sort_key \<times> 'a \<Rightarrow> (sort_key \<times> 'a) list \<Rightarrow> error + (sort_key \<times> 'a) list" where
  "insert_by_key x [] = Inr [x]"
| "insert_by_key x (y # ys) =
     bind_err (key_lt (fst y) (fst x)) (\<lambda>b.
       if b then bind_err (insert_by_key x ys) (\<lambda>r. Inr (y # r)) else Inr (x # y # ys))"

fun sort_by_key :: "(sort_key \<times> 'a) list \<Rightarrow> error + (sort_key \<times> 'a) list" where
  "sort_by_key [] = Inr []"
| "sort_by_key (x # xs) = bind_err (sort_by_key xs) (insert_by_key x)"

fun keys_of :: "environment \<Rightarrow> string list \<Rightarrow> error + (sort_key \<times> string) list" where
  "keys_of env [] = Inr []"
| "keys_of env (uid # uids) =
     bind_err (getDateTime env uid) (\<lambda>k.
     bind_err (keys_of env uids) (\<lambda>ks. Inr ((k, uid) # ks)))"

definition sortReportsByDateTime :: "environment \<Rightarrow> string list \<Rightarrow> error + string list" where
  "sortReportsByDateTime env uids =
     bind_err (keys_of env uids) (\<lambda>ks.
     bind_err (sort_by_key ks) (\<lambda>sorted_ks. Inr (map snd sorted_ks)))"

section \<open>Unique column names\<close>

text \<open>An entry of \<open>infoItems\<close>: the column's name, unit and description.\<close>

record info_item =
  name :: string
  unit :: string
  description :: string

text \<open>\<open>str(n)\<close> for a count: its decimal digits.\<close>

fun str_nat :: "nat \<Rightarrow> string" where
  "str_nat n =
     (if n < 10 then [''0123456789'' ! n]
      else str_nat (n div 10) @ [''0123456789'' ! (n mod 10)])"

declare str_nat.simps [simp del]

text \<open>
  \<open>{k: v for k, v in Counter(names).items() if v > 1}\<close>: the names that occur more than
  once, each with the number of its occurrences.
\<close>

definition duplicate_counts :: "string list \<Rightarrow> string \<Rightarrow> nat option" where
  "duplicate_counts names k =
     (if 1 < count_list names k then Some (count_list names k) else None)"

text \<open>
  The loop over \<open>reversed(range(len(names)))\<close>: \<open>i\<close> indices are still to be visited,
  the next one is \<open>i - 1\<close>. A count of 0 is falsy.
\<close>

primrec number_duplicates ::
  "string list \<Rightarrow> nat \<Rightarrow> string list \<Rightarrow> (string \<Rightarrow> nat option) \<Rightarrow>
     string list \<times> (string \<Rightarrow> nat option)" where
  "number_duplicates names 0 nameListCopy counts = (nameListCopy, counts)"
| "number_duplicates names (Suc i) nameListCopy counts =
     (case counts (names ! i) of
        None \<Rightarrow> number_duplicates names i nameListCopy counts
      | Some c \<Rightarrow>
          if c \<noteq> 0
          then number_duplicates names i
                 (nameListCopy[i := nameListCopy ! i @ '' ('' @ str_nat c @ '')''])
                 (counts(names ! i \<mapsto> c - 1))
          else number_duplicates names i nameListCopy counts)"

definition enumerateDuplicateNames :: "info_item list \<Rightarrow> info_item list" where
  "enumerateDuplicateNames items =
     (let names = map name items;
          nameListCopy = fst (number_duplicates names (length names) names
                                (duplicate_counts names))
      in map (\<lambda>(item, n). item\<lparr>name := n\<rparr>) (zip items nameListCopy))"

text \<open>
  The name position \<open>i\<close> ends with, said directly: a name that occurs once stays; one
  that occurs more often gets the number of its occurrences up to and including \<open>i\<close>.
\<close>

definition occurrence_name :: "string list \<Rightarrow> nat \<Rightarrow> string" where
  "occurrence_name names i =
     (if 1 < count_list names (names ! i)
      then names ! i @ '' ('' @ str_nat (count_list (take (Suc i) names) (names ! i)) @ '')''
      else names ! i)"

section \<open>A small report, for concrete runs\<close>

definition example_report :: "measurement_group list \<Rightarrow> sr_report" where
  "example_report groups =
     \<lparr>sr_dataset = no_elements\<lparr>CurrentRequestedProcedureEvidenceSequence :=
          Some [\<lparr>ReferencedSeriesSequence =
            Some [\<lparr>series_ref.ReferencedSOPSequence = None, SeriesInstanceUID = Some ''series1''\<rparr>]\<rparr>]\<rparr>,
      planar_roi_measurement_groups = groups\<rparr>"

definition example_finding_site :: content_item where
  "example_finding_site =
     ContentItem None
       (Some [\<lparr>CodingSchemeDesignator = Some ''SCT'', CodeValue = Some ''39607008'',
               CodeMeaning = Some ''Lung''\<rparr>])
       None None None None None None None None None"

text \<open>An image item that references SOP instance \<open>uid\<close>.\<close>

definition source_image :: "string \<Rightarrow> content_item" where
  "source_image uid =
     ContentItem None None None (Some ''SELECTED FROM'') None None None None None None
       (Some [\<lparr>ReferencedSOPClassUID = None, ReferencedSOPInstanceUID = Some uid,
               ReferencedFrameNumber = None\<rparr>])"

text \<open>A group whose ROI is the box (1,2) (5,2) (5,8) (1,8) on image \<open>uid\<close>.\<close>

definition example_box_group :: "string \<Rightarrow> measurement_group" where
  "example_box_group uid =
     \<lparr>tracking_identifier = ''T1'', tracking_uid = ''1.2.3.1'',
      finding_type = Some \<lparr>code_value = ''108369006'', scheme_designator = ''SCT'',
                           meaning = ''Neoplasm''\<rparr>,
      finding_sites = [example_finding_site],
      reference_type = \<lparr>code_value = ''111030'', scheme_designator = ''DCM'',
                         meaning = ''Image Region''\<rparr>,
      roi = Some (ContentItem None None (Some [source_image uid]) None None None None
                    (Some ''POLYLINE'') (Some [1, 2, 5, 2, 5, 8, 1, 8]) (Some ''VOLUME'') None),
      qualitative_evaluations = []\<rparr>"

text \<open>A group that refers to a segment, and so has no image region.\<close>

definition example_plain_group :: measurement_group where
  "example_plain_group =
     \<lparr>tracking_identifier = ''T2'', tracking_uid = ''1.2.3.2'',
      finding_type = Some \<lparr>code_value = ''108369006'', scheme_designator = ''SCT'',
                           meaning = ''Neoplasm''\<rparr>,
      finding_sites = [example_finding_site],
      reference_type = \<lparr>code_value = ''121191'', scheme_designator = ''DCM'',
                         meaning = ''Referenced Segment''\<rparr>,
      roi = None,
      qualitative_evaluations = []\<rparr>"

text \<open>An item whose concept name is the code \<open>(scheme, code value, meaning)\<close>.\<close>

definition named_item ::
  "string \<Rightarrow> string \<Rightarrow> string \<Rightarrow> content_item list option \<Rightarrow> content_item" where
  "named_item scheme code_val code_meaning children =
     ContentItem
       (Some [\<lparr>CodingSchemeDesignator = Some scheme, CodeValue = Some code_val,
               CodeMeaning = Some code_meaning\<rparr>])
       None children None None None None None None None None"

text \<open>
  A report of observer \<open>Dr A\<close> with one measurement group: tracking identifier
  \<open>Tumor1\<close> and a length whose polyline is [0, 0, 10, 0] on the image \<open>uid\<close>.
\<close>

definition example_length_report :: "string \<Rightarrow> content_item" where
  "example_length_report uid =
     named_item ''DCM'' ''126000'' ''Imaging Measurement Report'' (Some
       [ContentItem
          (Some [\<lparr>CodingSchemeDesignator = Some ''DCM'', CodeValue = Some ''121008'',
                  CodeMeaning = Some ''Person Observer Name''\<rparr>])
          None None None None None (Some ''Dr A'') None None None None,
        named_item ''DCM'' ''126010'' ''Imaging Measurements'' (Some
          [named_item ''DCM'' ''125007'' ''Measurement Group'' (Some
             [ContentItem
                (Some [\<lparr>CodingSchemeDesignator = Some ''DCM'', CodeValue = Some ''112039'',
                        CodeMeaning = Some ''Tracking Identifier''\<rparr>])
                None None None (Some ''Tumor1'') None None None None None None,
              named_item ''SRT'' ''G-D7FE'' ''Length'' (Some
                [ContentItem None None (Some [source_image uid]) None None None None
                   (Some ''POLYLINE'') (Some [0, 0, 10, 0]) None None])])])])"

text \<open>
  One image of series \<open>series1\<close> is in the database: instance \<open>img1\<close>, stored in file
  \<open>f1\<close>, at position (0, 0, 5), rows along x and columns along y, row spacing 1 and
  column spacing 2. Report \<open>sr1\<close> measures on that image, report \<open>sr2\<close> on an image
  the database does not know.
\<close>

definition example_env :: environment where
  "example_env =
     \<lparr>fileForInstance = (\<lambda>uid. if uid = ''img1'' then ''f1''
         else if uid = ''sr1'' then ''r1'' else if uid = ''sr2'' then ''r2'' else []),
      filesForSeries = (\<lambda>series. if series = ''series1'' then [''f1''] else []),
      read_file = (\<lambda>path. if path = ''f1''
         then Some (no_elements\<lparr>SOPInstanceUID := Some ''img1'',
                ImagePositionPatient := Some [0, 0, 5],
                ImageOrientationPatient := Some [1, 0, 0, 0, 1, 0],
                PixelSpacing := Some [1, 2]\<rparr>)
         else None),
      read_report = (\<lambda>path. if path = ''r1'' then Some (example_length_report ''img1'')
         else if path = ''r2'' then Some (example_length_report ''img9'') else None)\<rparr>"

text \<open>A referenced series with one instance of the given SOP class.\<close>

definition referenced_series :: "string \<Rightarrow> string \<Rightarrow> series_ref" where
  "referenced_series sop_class series =
     \<lparr>series_ref.ReferencedSOPSequence =
        Some [\<lparr>ReferencedSOPClassUID = Some sop_class,
               ReferencedSOPInstanceUID = Some (series @ ''.1''),
               ReferencedFrameNumber = None\<rparr>],
      SeriesInstanceUID = Some series\<rparr>"

text \<open>Report 1.1 references the segmentation series S1 and S2; report 1.2 references nothing.\<close>

definition report_with_two_segmentations :: dataset where
  "report_with_two_segmentations =
     no_elements\<lparr>SOPInstanceUID := Some ''1.1'',
       CurrentRequestedProcedureEvidenceSequence :=
         Some [\<lparr>ReferencedSeriesSequence =
            Some [referenced_series UID_SegmentationStorage ''S1'',
                  referenced_series UID_SegmentationStorage ''S2'']\<rparr>]\<rparr>"

definition report_without_references :: dataset where
  "report_without_references = no_elements\<lparr>SOPInstanceUID := Some ''1.2''\<rparr>"

text \<open>
  Two reports on file: \<open>u1\<close> with a series date and time (15 June 2022, 09:00:00),
  \<open>u2\<close> with a study date and time only (1 January 2023, 10:00:00).
\<close>

definition dated_env :: environment where
  "dated_env =
     \<lparr>fileForInstance = (\<lambda>uid. uid),
      filesForSeries = (\<lambda>series. []),
      read_file = (\<lambda>path.
         if path = ''u1''
         then Some (no_elements\<lparr>SeriesDate := Some ''20220615'', SeriesTime := Some ''090000''\<rparr>)
         else if path = ''u2''
         then Some (no_elements\<lparr>StudyDate := Some ''20230101'', StudyTime := Some ''100000''\<rparr>)
         else None),
      read_report = (\<lambda>path. None)\<rparr>"

text \<open>
  The "Bounded by" evaluation; an evaluation of another kind (severity: mild); and the
  "Bounded by" codes with the value's meaning in lower case.
\<close>

definition bounded_by_evaluation :: qualitative_evaluation where
  "bounded_by_evaluation =
     \<lparr>qe_name = \<lparr>code_value = ''130400'', scheme_designator = ''DCM'',
                  meaning = ''Geometric purpose of region''\<rparr>,
      qe_value = \<lparr>code_value = ''75958009'', scheme_designator = ''SCT'',
                   meaning = ''Bounded by''\<rparr>\<rparr>"

definition other_evaluation :: qualitative_evaluation where
  "other_evaluation =
     \<lparr>qe_name = \<lparr>code_value = ''246112005'', scheme_designator = ''SCT'',
                  meaning = ''Severity''\<rparr>,
      qe_value = \<lparr>code_value = ''255604002'', scheme_designator = ''SCT'',
                   meaning = ''Mild''\<rparr>\<rparr>"

definition lower_case_evaluation :: qualitative_evaluation where
  "lower_case_evaluation =
     \<lparr>qe_name = \<lparr>code_value = ''130400'', scheme_designator = ''DCM'',
                  meaning = ''Geometric purpose of region''\<rparr>,
      qe_value = \<lparr>code_value = ''75958009'', scheme_designator = ''SCT'',
                   meaning = ''bounded by''\<rparr>\<rparr>"

text \<open>A group whose ROI is a circle on image \<open>uid\<close>: an image region, but no polyline.\<close>

definition example_circle_group :: "string \<Rightarrow> measurement_group" where
  "example_circle_group uid =
     \<lparr>tracking_identifier = ''T3'', tracking_uid = ''1.2.3.3'',
      finding_type = Some \<lparr>code_value = ''108369006'', scheme_designator = ''SCT'',
                           meaning = ''Neoplasm''\<rparr>,
      finding_sites = [example_finding_site],
      reference_type = \<lparr>code_value = ''111030'', scheme_designator = ''DCM'',
                         meaning = ''Image Region''\<rparr>,
      roi = Some (ContentItem None None (Some [source_image uid]) None None None None
                    (Some ''CIRCLE'') (Some [3, 3, 5, 3]) None None),
      qualitative_evaluations = []\<rparr>"

section \<open>Properties\<close>

subsection \<open>TID1500 recognition\<close>

lemma bind_err_simps [simp]:
  "bind_err (Inl e) f = Inl e"
  "bind_err (Inr v) f = f v"
  by (simp_all add: bind_err_def)

lemma attr_simps [simp]:
  "attr None = Inl AttributeError"
  "attr (Some x) = Inr x"
  by (simp_all add: attr_def)

text \<open>
  C8. \<open>isDICOMTID1500\<close> never raises, and answers True exactly when the modality is SR, the
  SOP class UID is one of the three accepted SR storage classes, and the first item of
  the content template sequence has template identifier 1500. An absent element makes
  the answer False.
\<close>

theorem isDICOMTID1500_exact:
  "isDICOMTID1500 ds =
     Inr (Modality ds = Some ''SR'' \<and>
          (SOPClassUID ds = Some UID_EnhancedSRStorage \<or>
           SOPClassUID ds = Some UID_ComprehensiveSRStorage \<or>
           SOPClassUID ds = Some UID_Comprehensive3DSRStorage) \<and>
          (\<exists>t ts. ContentTemplateSequence ds = Some (t # ts) \<and>
                  TemplateIdentifier t = Some ''1500''))"
proof -
  have uids: "UID_EnhancedSRStorage \<noteq> ''''" "UID_ComprehensiveSRStorage \<noteq> ''''"
    "UID_Comprehensive3DSRStorage \<noteq> ''''"
    by (simp_all add: UID_EnhancedSRStorage_def UID_ComprehensiveSRStorage_def
        UID_Comprehensive3DSRStorage_def)
  show ?thesis
  proof (cases "Modality ds")
    case None
    then show ?thesis
      by (simp add: isDICOMTID1500_def isDICOMTID1500_expr_def getDICOMValue_def)
  next
    case (Some m)
    note m = this
    show ?thesis
    proof (cases "SOPClassUID ds")
      case None
      with m uids show ?thesis
        by (simp add: isDICOMTID1500_def isDICOMTID1500_expr_def getDICOMValue_def)
    next
      case (Some c)
      note c = this
      show ?thesis
      proof (cases "ContentTemplateSequence ds")
        case None
        with m c show ?thesis
          by (simp add: isDICOMTID1500_def isDICOMTID1500_expr_def getDICOMValue_def)
      next
        case (Some xs)
        note xs = this
        show ?thesis
        proof (cases xs)
          case Nil
          with m c xs show ?thesis
            by (simp add: isDICOMTID1500_def isDICOMTID1500_expr_def getDICOMValue_def)
        next
          case (Cons t ts)
          with m c xs show ?thesis
            by (cases "TemplateIdentifier t")
              (simp_all add: isDICOMTID1500_def isDICOMTID1500_expr_def getDICOMValue_def)
        qed
      qed
    qed
  qed
qed

theorem isDICOMTID1500_exact_witness:
  "isDICOMTID1500 (no_elements\<lparr>Modality := Some ''SR'',
       SOPClassUID := Some UID_ComprehensiveSRStorage,
       ContentTemplateSequence := Some [\<lparr>TemplateIdentifier = Some ''1500''\<rparr>]\<rparr>) = Inr True \<and>
   isDICOMTID1500 (no_elements\<lparr>Modality := Some ''SR'',
       SOPClassUID := Some UID_ComprehensiveSRStorage\<rparr>) = Inr False \<and>
   isDICOMTID1500 no_elements = Inr False"
  using isDICOMTID1500_exact [of "no_elements\<lparr>Modality := Some ''SR'',
       SOPClassUID := Some UID_ComprehensiveSRStorage,
       ContentTemplateSequence := Some [\<lparr>TemplateIdentifier = Some ''1500''\<rparr>]\<rparr>"]
    isDICOMTID1500_exact [of "no_elements\<lparr>Modality := Some ''SR'',
       SOPClassUID := Some UID_ComprehensiveSRStorage\<rparr>"]
    isDICOMTID1500_exact [of no_elements]
  by (simp add: no_elements_def)

subsection \<open>Bounding-box detection\<close>

lemma bbox_flag_evals_last:
  "bbox_flag_evals es flag =
     (if es = [] then flag else if is_bounded_by (last es) then 1 else 0)"
  by (induction es arbitrary: flag) auto

lemma bbox_flag_groups_concat:
  "bbox_flag_groups quals flag = bbox_flag_evals (concat quals) flag"
proof (induction quals arbitrary: flag)
  case Nil
  show ?case by simp
next
  case (Cons q rest)
  have "bbox_flag_evals (q @ ys) flag = bbox_flag_evals ys (bbox_flag_evals q flag)" for ys
    by (induction q arbitrary: flag) auto
  with Cons show ?case by simp
qed

text \<open>
  An evaluation whose two codes are the ones looked for, DCM 130400 and SCT 75958009,
  with the value's meaning written "bounded by": the meanings are compared as well, and
  the report counts as holding no bounding box.
\<close>

theorem meaning_is_compared_counterexample:
  "code_value (qe_name lower_case_evaluation) = ''130400'' \<and>
   scheme_designator (qe_name lower_case_evaluation) = ''DCM'' \<and>
   code_value (qe_value lower_case_evaluation) = ''75958009'' \<and>
   scheme_designator (qe_value lower_case_evaluation) = ''SCT'' \<and>
   checkIfSRContainsBbox (example_report
     [example_plain_group\<lparr>qualitative_evaluations := [lower_case_evaluation]\<rparr>]) = 0"
  by (simp add: checkIfSRContainsBbox_def example_report_def example_plain_group_def
      is_bounded_by_def lower_case_evaluation_def)

text \<open>
  C10, amended. \<open>checkIfSRContainsBbox\<close> returns 1 exactly when the last qualitative
  evaluation examined, over all groups in order, has the name (130400, DCM, "Geometric
  purpose of region") and the value (75958009, SCT, "Bounded by"), code value, scheme
  designator and code meaning all compared as text; every evaluation that does not
  resets the flag, so a match followed by a non-match gives 0.
\<close>

theorem checkIfSRContainsBbox_last_evaluation:
  "checkIfSRContainsBbox sr =
     (let evals = concat (map qualitative_evaluations (planar_roi_measurement_groups sr))
      in if evals \<noteq> [] \<and>
            code_value (qe_name (last evals)) = ''130400'' \<and>
            scheme_designator (qe_name (last evals)) = ''DCM'' \<and>
            meaning (qe_name (last evals)) = ''Geometric purpose of region'' \<and>
            code_value (qe_value (last evals)) = ''75958009'' \<and>
            scheme_designator (qe_value (last evals)) = ''SCT'' \<and>
            meaning (qe_value (last evals)) = ''Bounded by''
         then 1 else 0)"
proof -
  define evals where
    "evals = concat (map qualitative_evaluations (planar_roi_measurement_groups sr))"
  have "bbox_flag_evals evals 0 =
      (if evals \<noteq> [] \<and> is_bounded_by (last evals) then 1 else 0)"
    by (simp add: bbox_flag_evals_last)
  then have "checkIfSRContainsBbox sr =
      (if evals \<noteq> [] \<and> is_bounded_by (last evals) then 1 else 0)"
    by (simp only: checkIfSRContainsBbox_def bbox_flag_groups_concat evals_def)
  then show ?thesis
    by (simp only: is_bounded_by_def Let_def evals_def)
qed

theorem checkIfSRContainsBbox_last_evaluation_witness:
  "checkIfSRContainsBbox (example_report
     [example_plain_group\<lparr>qualitative_evaluations := [bounded_by_evaluation]\<rparr>,
      example_plain_group\<lparr>qualitative_evaluations := [other_evaluation]\<rparr>]) = 0 \<and>
   checkIfSRContainsBbox (example_report
     [example_plain_group\<lparr>qualitative_evaluations :=
        [other_evaluation, bounded_by_evaluation]\<rparr>,
      example_plain_group]) = 1 \<and>
   checkIfSRContainsBbox (example_report
     [example_plain_group\<lparr>qualitative_evaluations := [lower_case_evaluation]\<rparr>]) = 0"
  using checkIfSRContainsBbox_last_evaluation [of "example_report
     [example_plain_group\<lparr>qualitative_evaluations := [bounded_by_evaluation]\<rparr>,
      example_plain_group\<lparr>qualitative_evaluations := [other_evaluation]\<rparr>]"]
    checkIfSRContainsBbox_last_evaluation [of "example_report
     [example_plain_group\<lparr>qualitative_evaluations :=
        [other_evaluation, bounded_by_evaluation]\<rparr>,
      example_plain_group]"]
    checkIfSRContainsBbox_last_evaluation [of "example_report
     [example_plain_group\<lparr>qualitative_evaluations := [lower_case_evaluation]\<rparr>]"]
  by (simp add: example_report_def example_plain_group_def
      bounded_by_evaluation_def other_evaluation_def lower_case_evaluation_def)

subsection \<open>The geometry of a bounding box\<close>

lemma item_at_simps [simp]:
  "item_at (x # xs) 0 = Inr x"
  "item_at (x # xs) (Suc n) = item_at xs n"
  "item_at [] n = Inl IndexError"
  by (simp_all add: item_at_def)

lemma four_of_eight_x:
  "four_of [x0, y0, x1, y1, x2, y2, x3, y3] 0 2 4 6 = Inr [x0, x1, x2, x3]"
  by (simp add: four_of_def item_at_def)

lemma four_of_eight_y:
  "four_of [x0, y0, x1, y1, x2, y2, x3, y3] 1 3 5 7 = Inr [y0, y1, y2, y3]"
  by (simp add: four_of_def item_at_def)

lemma bbox_geometry_eight:
  "bbox_geometry [x0, y0, x1, y1, x2, y2, x3, y3] =
     Inr \<lparr>min_x = min (min (min x0 x1) x2) x3, max_x = max (max (max x0 x1) x2) x3,
          min_y = min (min (min y0 y1) y2) y3, max_y = max (max (max y0 y1) y2) y3,
          box_width = max (max (max x0 x1) x2) x3 - min (min (min x0 x1) x2) x3,
          box_height = max (max (max y0 y1) y2) y3 - min (min (min y0 y1) y2) y3,
          box_center_x = min (min (min x0 x1) x2) x3 +
             (max (max (max x0 x1) x2) x3 - min (min (min x0 x1) x2) x3) / 2,
          box_center_y = min (min (min y0 y1) y2) y3 +
             (max (max (max y0 y1) y2) y3 - min (min (min y0 y1) y2) y3) / 2\<rparr>"
  unfolding bbox_geometry_def four_of_eight_x four_of_eight_y
  by (simp add: Let_def)





subsection \<open>The loop over the measurement groups\<close>

lemma bind_err_eq_Inr:
  "bind_err r f = Inr y \<longleftrightarrow> (\<exists>v. r = Inr v \<and> f v = Inr y)"
  by (cases r) simp_all

lemma bind_err_eq_Inl:
  "bind_err r f = Inl e \<longleftrightarrow> r = Inl e \<or> (\<exists>v. r = Inr v \<and> f v = Inl e)"
  by (cases r) simp_all

lemma local_var_simps [simp]:
  "local_var None = Inl UnboundLocalError"
  "local_var (Some x) = Inr x"
  by (simp_all add: local_var_def)

lemma local_var_eq_Inr: "local_var v = Inr x \<longleftrightarrow> v = Some x"
  by (cases v) simp_all

lemma attr_eq_Inr: "attr v = Inr x \<longleftrightarrow> v = Some x"
  by (cases v) simp_all

lemma item_at_eq_Inr: "item_at xs i = Inr x \<longleftrightarrow> i < length xs \<and> x = xs ! i"
  by (auto simp add: item_at_def)

lemma first_item_simps [simp]:
  "first_item [] = Inl IndexError"
  "first_item (x # xs) = Inr x"
  by (simp_all add: first_item_def)

lemma bbox_groups_snoc:
  "bbox_groups env s st (gs @ [g]) =
     bind_err (bbox_groups env s st gs) (\<lambda>st1. bbox_group env s st1 g)"
proof (induction gs arbitrary: st)
  case Nil
  show ?case by (cases "bbox_group env s st g") simp_all
next
  case (Cons a gs)
  show ?case by (cases "bbox_group env s st a") (simp_all add: Cons.IH)
qed

lemma make_poly_info_Inr:
  "make_poly_info g ft fs vars = Inr p \<longleftrightarrow>
     (\<exists>u b w h cx cy cz.
        var_referenced_sop_instance_uid vars = Some u \<and> var_bbox vars = Some b \<and>
        8 \<le> length b \<and> var_width vars = Some w \<and> var_height vars = Some h \<and>
        var_center_x vars = Some cx \<and> var_center_y vars = Some cy \<and>
        var_center_z vars = Some cz \<and>
        p = \<lparr>TrackingIdentifier = tracking_identifier g, TrackingUID = tracking_uid g,
             info_SOPInstanceUID = u, FindingType = ft, FindingSite = fs,
             polyline = [(b ! 0, b ! 1), (b ! 2, b ! 3), (b ! 4, b ! 5), (b ! 6, b ! 7)],
             width = w, height = h, center_x = - cx, center_y = - cy, center_z = cz\<rparr>)"
  unfolding make_poly_info_def bind_err_eq_Inr local_var_eq_Inr item_at_eq_Inr
  by auto

lemma read_referenced_sop_frame:
  "poly_infos (read_referenced_sop r st) = poly_infos st"
  "tableNode (read_referenced_sop r st) = tableNode st"
  "var_bbox (locals (read_referenced_sop r st)) = var_bbox (locals st)"
  "var_width (locals (read_referenced_sop r st)) = var_width (locals st)"
  "var_height (locals (read_referenced_sop r st)) = var_height (locals st)"
  "var_center_x (locals (read_referenced_sop r st)) = var_center_x (locals st)"
  "var_center_y (locals (read_referenced_sop r st)) = var_center_y (locals st)"
  "var_center_z (locals (read_referenced_sop r st)) = var_center_z (locals st)"
  by (simp_all add: read_referenced_sop_def split: sum.splits)

lemma polyline_branch_frame:
  assumes "polyline_branch env s r st = Inr st1"
  shows "poly_infos st1 = poly_infos st" and "tableNode st1 = tableNode st"
  using assms unfolding polyline_branch_def bind_err_eq_Inr by auto

lemma region_branch_frame:
  assumes "region_branch env s g st = Inr st1"
  shows "poly_infos st1 = poly_infos st" and "tableNode st1 = tableNode st"
proof -
  have "poly_infos st1 = poly_infos st \<and> tableNode st1 = tableNode st"
  proof (cases "is_image_region (reference_type g)")
    case False
    with assms show ?thesis by (simp add: region_branch_def)
  next
    case True
    with assms obtain r gt where r: "roi g = Some r" "GraphicType r = Some gt"
      and rest: "(if gt = ''POLYLINE''
                  then polyline_branch env s r (read_referenced_sop (roi g) st)
                  else Inr (read_referenced_sop (roi g) st)) = Inr st1"
      by (auto simp add: region_branch_def Let_def bind_err_eq_Inr attr_eq_Inr)
    show ?thesis
    proof (cases "gt = ''POLYLINE''")
      case True
      with rest have "polyline_branch env s r (read_referenced_sop (roi g) st) = Inr st1"
        by simp
      from polyline_branch_frame [OF this] show ?thesis
        by (simp add: read_referenced_sop_frame)
    next
      case False
      with rest have "st1 = read_referenced_sop (roi g) st" by simp
      then show ?thesis by (simp add: read_referenced_sop_frame)
    qed
  qed
  then show "poly_infos st1 = poly_infos st" and "tableNode st1 = tableNode st" by simp_all
qed

text \<open>Without a bounding-box ROI the branch leaves every geometry variable as it was.\<close>

lemma region_branch_no_polyline:
  assumes "\<not> has_polyline_roi g" and "region_branch env s g st = Inr st1"
  shows "var_bbox (locals st1) = var_bbox (locals st) \<and>
         var_width (locals st1) = var_width (locals st) \<and>
         var_height (locals st1) = var_height (locals st) \<and>
         var_center_x (locals st1) = var_center_x (locals st) \<and>
         var_center_y (locals st1) = var_center_y (locals st) \<and>
         var_center_z (locals st1) = var_center_z (locals st)"
proof (cases "is_image_region (reference_type g)")
  case False
  with assms(2) show ?thesis by (simp add: region_branch_def)
next
  case True
  with assms(2) obtain r gt where r: "roi g = Some r" "GraphicType r = Some gt"
    and rest: "(if gt = ''POLYLINE''
                then polyline_branch env s r (read_referenced_sop (roi g) st)
                else Inr (read_referenced_sop (roi g) st)) = Inr st1"
    by (auto simp add: region_branch_def Let_def bind_err_eq_Inr attr_eq_Inr)
  from True r assms(1) have "gt \<noteq> ''POLYLINE''" by (simp add: has_polyline_roi_def)
  with rest have "st1 = read_referenced_sop (roi g) st" by simp
  then show ?thesis by (simp add: read_referenced_sop_frame)
qed

lemma region_branch_no_polyline_runs:
  assumes "\<not> has_polyline_roi g"
    and "is_image_region (reference_type g) \<Longrightarrow> \<exists>r t. roi g = Some r \<and> GraphicType r = Some t"
  shows "\<exists>st1. region_branch env s g st = Inr st1"
proof (cases "is_image_region (reference_type g)")
  case False
  then show ?thesis by (simp add: region_branch_def)
next
  case True
  with assms(2) obtain r t where r: "roi g = Some r" "GraphicType r = Some t" by blast
  with True assms(1) have "t \<noteq> ''POLYLINE''" by (simp add: has_polyline_roi_def)
  with True r show ?thesis by (simp add: region_branch_def Let_def)
qed

lemma bbox_group_Inr:
  assumes "bbox_group env s st g = Inr st'"
  obtains ft fs st1 p t where
    "finding_type g = Some ft" "collect_finding_sites (finding_sites g) = Inr fs"
    "region_branch env s g st = Inr st1"
    "make_poly_info g [code_value ft, scheme_designator ft, meaning ft] fs (locals st1) = Inr p"
    "createBboxTable (poly_infos st1 @ [p]) = Inr t"
    "st' = st1\<lparr>poly_infos := poly_infos st1 @ [p], tableNode := Some t\<rparr>"
  using assms unfolding bbox_group_def bind_err_eq_Inr attr_eq_Inr by auto

lemma make_poly_info_unbound:
  "var_bbox vars = None \<Longrightarrow> make_poly_info g ft fs vars = Inl UnboundLocalError"
  by (cases "var_referenced_sop_instance_uid vars") (simp_all add: make_poly_info_def)

lemma bbox_group_first_fails:
  assumes "\<not> has_polyline_roi g"
  shows "\<exists>e. bbox_group env s initial_bbox_state g = Inl e"
proof (cases "bbox_group env s initial_bbox_state g")
  case (Inl e)
  then show ?thesis by blast
next
  case (Inr st')
  then obtain ft :: CodedConcept and fs st1 p where
    rb: "region_branch env s g initial_bbox_state = Inr st1" and
    mk: "make_poly_info g [code_value ft, scheme_designator ft, meaning ft] fs (locals st1) = Inr p"
    by (rule bbox_group_Inr) blast
  from region_branch_no_polyline [OF assms rb]
  have "var_bbox (locals st1) = None"
    by (simp add: initial_bbox_state_def unbound_locals_def)
  from make_poly_info_unbound [OF this] mk show ?thesis by simp
qed

lemma bbox_group_first_unbound:
  assumes "\<not> has_polyline_roi g"
    and "finding_type g = Some ft"
    and "collect_finding_sites (finding_sites g) = Inr fs"
    and "is_image_region (reference_type g) \<Longrightarrow> \<exists>r t. roi g = Some r \<and> GraphicType r = Some t"
  shows "bbox_group env s initial_bbox_state g = Inl UnboundLocalError"
proof -
  from region_branch_no_polyline_runs [OF assms(1) assms(4)]
  obtain st1 where rb: "region_branch env s g initial_bbox_state = Inr st1" by blast
  from region_branch_no_polyline [OF assms(1) rb]
  have "var_bbox (locals st1) = None"
    by (simp add: initial_bbox_state_def unbound_locals_def)
  from make_poly_info_unbound [OF this] assms(2,3) rb show ?thesis
    by (simp add: bbox_group_def)
qed

lemma bbox_group_matches:
  assumes "bbox_group env s st g = Inr st'"
  shows "locals_match_last st'" and "\<exists>p. poly_infos st' = poly_infos st @ [p]"
proof -
  from assms obtain ft :: CodedConcept and fs st1 p t where
    rb: "region_branch env s g st = Inr st1" and
    mk: "make_poly_info g [code_value ft, scheme_designator ft, meaning ft] fs (locals st1) = Inr p" and
    tb: "createBboxTable (poly_infos st1 @ [p]) = Inr t" and
    st': "st' = st1\<lparr>poly_infos := poly_infos st1 @ [p], tableNode := Some t\<rparr>"
    by (rule bbox_group_Inr) blast
  from mk obtain u b w h cx cy cz where
    v: "var_referenced_sop_instance_uid (locals st1) = Some u" "var_bbox (locals st1) = Some b"
       "8 \<le> length b" "var_width (locals st1) = Some w" "var_height (locals st1) = Some h"
       "var_center_x (locals st1) = Some cx" "var_center_y (locals st1) = Some cy"
       "var_center_z (locals st1) = Some cz" and
    p: "p = \<lparr>TrackingIdentifier = tracking_identifier g, TrackingUID = tracking_uid g,
             info_SOPInstanceUID = u,
             FindingType = [code_value ft, scheme_designator ft, meaning ft], FindingSite = fs,
             polyline = [(b ! 0, b ! 1), (b ! 2, b ! 3), (b ! 4, b ! 5), (b ! 6, b ! 7)],
             width = w, height = h, center_x = - cx, center_y = - cy, center_z = cz\<rparr>"
    unfolding make_poly_info_Inr by blast
  have l: "locals st1 = \<lparr>var_referenced_sop_instance_uid = Some u, var_bbox = Some b,
                      var_width = Some w, var_height = Some h, var_center_x = Some cx,
                      var_center_y = Some cy, var_center_z = Some cz\<rparr>"
    using v by (cases "locals st1") simp
  show "locals_match_last st'"
    unfolding locals_match_last_def
    using l v(3) tb by (simp add: st' p info_geometry_def)
  from region_branch_frame(1) [OF rb] show "\<exists>p. poly_infos st' = poly_infos st @ [p]"
    by (simp add: st')
qed

lemma bbox_groups_matches:
  assumes "bbox_groups env s st gs = Inr st'" and "gs \<noteq> []"
  shows "locals_match_last st'"
proof -
  from assms(2) obtain gs0 g0 where gs: "gs = gs0 @ [g0]" by (cases gs rule: rev_cases) auto
  with assms(1) obtain st0 where "bbox_group env s st0 g0 = Inr st'"
    by (auto simp add: bbox_groups_snoc bind_err_eq_Inr)
  then show ?thesis by (rule bbox_group_matches(1))
qed

lemma createBboxTable_snoc:
  "createBboxTable (ps @ [p]) =
     bind_err (createBboxTable ps) (\<lambda>rs. bind_err (bbox_table_row p) (\<lambda>r. Inr (rs @ [r])))"
proof (induction ps)
  case Nil
  show ?case by (cases "bbox_table_row p") simp_all
next
  case (Cons a ps)
  show ?case
    by (cases "bbox_table_row a"; cases "createBboxTable ps"; cases "bbox_table_row p")
      (simp_all add: Cons.IH)
qed

lemma finding_site_codes_length:
  assumes "finding_site_codes f = Inr cs" and "c \<in> set cs"
  shows "length c = 3"
  using assms
  by (auto simp add: finding_site_codes_def bind_err_eq_Inr split: option.splits list.splits)

lemma collect_finding_sites_length:
  assumes "collect_finding_sites fs = Inr cs" and "c \<in> set cs"
  shows "length c = 3"
  using assms
proof (induction fs arbitrary: cs)
  case Nil
  then show ?case by simp
next
  case (Cons f fs)
  from Cons.prems(1) obtain a b where
    a: "finding_site_codes f = Inr a" and b: "collect_finding_sites fs = Inr b" and
    cs: "cs = a @ b"
    by (auto simp add: bind_err_eq_Inr)
  from Cons.prems(2) cs have "c \<in> set a \<or> c \<in> set b" by simp
  then show ?case
    using finding_site_codes_length [OF a] Cons.IH [OF b] by blast
qed

lemma read_referenced_sop_keeps_uid:
  "var_referenced_sop_instance_uid (locals st) = Some u \<Longrightarrow>
     \<exists>u'. var_referenced_sop_instance_uid (locals (read_referenced_sop r st)) = Some u'"
  by (simp add: read_referenced_sop_def split: sum.splits)

lemma region_branch_no_polyline_cases:
  assumes "\<not> has_polyline_roi g" and "region_branch env s g st = Inr st1"
  shows "st1 = st \<or> st1 = read_referenced_sop (roi g) st"
proof (cases "is_image_region (reference_type g)")
  case False
  with assms(2) show ?thesis by (simp add: region_branch_def)
next
  case True
  with assms(2) obtain r gt where r: "roi g = Some r" "GraphicType r = Some gt"
    and rest: "(if gt = ''POLYLINE''
                then polyline_branch env s r (read_referenced_sop (roi g) st)
                else Inr (read_referenced_sop (roi g) st)) = Inr st1"
    by (auto simp add: region_branch_def Let_def bind_err_eq_Inr attr_eq_Inr)
  from True r assms(1) have "gt \<noteq> ''POLYLINE''" by (simp add: has_polyline_roi_def)
  with rest show ?thesis by simp
qed

lemma extract_Inr:
  "extractBboxMetadataToVtkTableNode env sr = Inr (infos, t, out) \<longleftrightarrow>
     (\<exists>s st. referenced_series_instance_uid (sr_dataset sr) = Inr s \<and>
        bbox_groups env s initial_bbox_state (planar_roi_measurement_groups sr) = Inr st \<and>
        tableNode st = Some t \<and> infos = poly_infos st \<and> out = printed st)"
  unfolding extractBboxMetadataToVtkTableNode_def bind_err_eq_Inr local_var_eq_Inr
  by auto

lemma region_branch_no_polyline_uid:
  assumes "\<not> has_polyline_roi g" and "region_branch env s g st = Inr st1"
    and "var_referenced_sop_instance_uid (locals st) = Some u"
  shows "var_referenced_sop_instance_uid (locals st1) = Some (record_sop_uid g u)"
proof (cases "is_image_region (reference_type g)")
  case False
  with assms(2,3) show ?thesis by (simp add: region_branch_def record_sop_uid_def)
next
  case True
  with assms(2) obtain r gt where r: "roi g = Some r" "GraphicType r = Some gt"
    and rest: "(if gt = ''POLYLINE''
                then polyline_branch env s r (read_referenced_sop (roi g) st)
                else Inr (read_referenced_sop (roi g) st)) = Inr st1"
    by (auto simp add: region_branch_def Let_def bind_err_eq_Inr attr_eq_Inr)
  from True r assms(1) have "gt \<noteq> ''POLYLINE''" by (simp add: has_polyline_roi_def)
  with rest have "st1 = read_referenced_sop (roi g) st" by simp
  with True assms(3) show ?thesis
    by (cases "roi_referenced_sop (roi g)")
      (simp_all add: read_referenced_sop_def record_sop_uid_def)
qed

text \<open>A group without a bounding-box ROI, after groups that went through.\<close>

lemma bbox_group_reuses:
  assumes g: "\<not> has_polyline_roi g"
    and st: "locals_match_last st"
    and run: "bbox_group env s st g = Inr st'"
  shows "\<exists>p. poly_infos st' = poly_infos st @ [p] \<and>
             info_geometry p = info_geometry (last (poly_infos st)) \<and>
             info_SOPInstanceUID p =
               record_sop_uid g (info_SOPInstanceUID (last (poly_infos st)))"
proof -
  from run obtain ft :: CodedConcept and fs st1 p t where
    rb: "region_branch env s g st = Inr st1" and
    mk: "make_poly_info g [code_value ft, scheme_designator ft, meaning ft] fs (locals st1) = Inr p" and
    st': "st' = st1\<lparr>poly_infos := poly_infos st1 @ [p], tableNode := Some t\<rparr>"
    by (rule bbox_group_Inr) blast
  from st obtain u b w h cx cy cz where
    l: "var_bbox (locals st) = Some b" "var_width (locals st) = Some w"
       "var_height (locals st) = Some h" "var_center_x (locals st) = Some cx"
       "var_center_y (locals st) = Some cy" "var_center_z (locals st) = Some cz" and
    u: "var_referenced_sop_instance_uid (locals st) = Some u"
       "info_SOPInstanceUID (last (poly_infos st)) = u" and
    geo: "info_geometry (last (poly_infos st)) =
          ([(b ! 0, b ! 1), (b ! 2, b ! 3), (b ! 4, b ! 5), (b ! 6, b ! 7)],
           w, h, - cx, - cy, cz)"
    unfolding locals_match_last_def by auto
  from region_branch_no_polyline [OF g rb] l
  have l1: "var_bbox (locals st1) = Some b" "var_width (locals st1) = Some w"
       "var_height (locals st1) = Some h" "var_center_x (locals st1) = Some cx"
       "var_center_y (locals st1) = Some cy" "var_center_z (locals st1) = Some cz"
    by simp_all
  note u1 = region_branch_no_polyline_uid [OF g rb u(1)]
  from mk l1 have "info_geometry p =
      ([(b ! 0, b ! 1), (b ! 2, b ! 3), (b ! 4, b ! 5), (b ! 6, b ! 7)], w, h, - cx, - cy, cz)"
    unfolding make_poly_info_Inr by (auto simp add: info_geometry_def)
  moreover from mk u1 have "info_SOPInstanceUID p = record_sop_uid g u"
    unfolding make_poly_info_Inr by auto
  ultimately show ?thesis
    using geo u(2) region_branch_frame(1) [OF rb] by (simp add: st')
qed

lemma bbox_group_reuse_runs:
  assumes g: "\<not> has_polyline_roi g"
    and st: "locals_match_last st"
    and rd: "group_metadata_readable g" and fsite: "has_coded_finding_site g"
  shows "\<exists>st'. bbox_group env s st g = Inr st' \<and> tableNode st' \<noteq> None"
proof -
  from rd obtain ft where ft: "finding_type g = Some ft"
    by (auto simp add: group_metadata_readable_def)
  from fsite obtain c cs where fs: "collect_finding_sites (finding_sites g) = Inr (c # cs)"
    by (auto simp add: has_coded_finding_site_def split: sum.splits list.splits)
  from rd have "is_image_region (reference_type g) \<Longrightarrow>
      \<exists>r t. roi g = Some r \<and> GraphicType r = Some t"
    by (auto simp add: group_metadata_readable_def split: option.splits)
  from region_branch_no_polyline_runs [OF g this]
  obtain st1 where rb: "region_branch env s g st = Inr st1" by blast
  from st obtain u b w h cx cy cz t where
    l: "var_referenced_sop_instance_uid (locals st) = Some u"
       "var_bbox (locals st) = Some b" "var_width (locals st) = Some w"
       "var_height (locals st) = Some h" "var_center_x (locals st) = Some cx"
       "var_center_y (locals st) = Some cy" "var_center_z (locals st) = Some cz" and
    b: "8 \<le> length b" and
    t: "createBboxTable (poly_infos st) = Inr t"
    unfolding locals_match_last_def by auto
  from region_branch_no_polyline [OF g rb] l
  have l1: "var_bbox (locals st1) = Some b" "var_width (locals st1) = Some w"
       "var_height (locals st1) = Some h" "var_center_x (locals st1) = Some cx"
       "var_center_y (locals st1) = Some cy" "var_center_z (locals st1) = Some cz"
    by simp_all
  from region_branch_no_polyline_cases [OF g rb] l(1) read_referenced_sop_keeps_uid
  obtain u1 where u1: "var_referenced_sop_instance_uid (locals st1) = Some u1" by blast
  define p where "p = \<lparr>TrackingIdentifier = tracking_identifier g, TrackingUID = tracking_uid g,
             info_SOPInstanceUID = u1,
             FindingType = [code_value ft, scheme_designator ft, meaning ft],
             FindingSite = c # cs,
             polyline = [(b ! 0, b ! 1), (b ! 2, b ! 3), (b ! 4, b ! 5), (b ! 6, b ! 7)],
             width = w, height = h, center_x = - cx, center_y = - cy, center_z = cz\<rparr>"
  have mk: "make_poly_info g [code_value ft, scheme_designator ft, meaning ft] (c # cs)
              (locals st1) = Inr p"
    unfolding make_poly_info_Inr using l1 u1 b by (simp add: p_def)
  have "length c = 3" by (rule collect_finding_sites_length [OF fs]) simp
  then have "\<exists>r. bbox_table_row p = Inr r"
    by (simp add: bbox_table_row_def p_def item_at_def)
  then obtain r where r: "bbox_table_row p = Inr r" by blast
  have tb: "createBboxTable (poly_infos st1 @ [p]) = Inr (t @ [r])"
    by (simp add: createBboxTable_snoc region_branch_frame(1) [OF rb] t r)
  show ?thesis
    by (simp add: bbox_group_def ft fs rb mk tb)
qed

text \<open>
  C9, amended. Polyline, width, height and centre are bound only in the Image-Region
  POLYLINE branch, the referenced SOP instance UID in the Image-Region branch before
  the graphic type is tested, and all are read for every group. When the first group
  has no Image-Region POLYLINE ROI the extraction raises, with UnboundLocalError once
  everything else of the group can be read. When a later group has none, its record
  carries the polyline, width, height and centre of the record before it; its
  referenced SOP instance UID is that of the record before it too, unless the group is
  an Image Region whose reference can be read, which brings its own. The extraction
  goes through whenever the group's other data can be read and it has a coded finding
  site.
\<close>

theorem geometry_read_without_polyline_roi:
  assumes g: "\<not> has_polyline_roi g"
  shows
   "(planar_roi_measurement_groups sr = g # rest \<longrightarrow>
       (\<exists>e. extractBboxMetadataToVtkTableNode env sr = Inl e) \<and>
       ((\<exists>s. referenced_series_instance_uid (sr_dataset sr) = Inr s) \<and>
        group_metadata_readable g \<longrightarrow>
          extractBboxMetadataToVtkTableNode env sr = Inl UnboundLocalError)) \<and>
    (\<forall>infos t out.
       extractBboxMetadataToVtkTableNode env sr = Inr (infos, t, out) \<longrightarrow>
         infos \<noteq> [] \<and>
         (\<forall>infos' t' out'.
            extractBboxMetadataToVtkTableNode env
              (sr\<lparr>planar_roi_measurement_groups := planar_roi_measurement_groups sr @ [g]\<rparr>) =
              Inr (infos', t', out') \<longrightarrow>
            (\<exists>p. infos' = infos @ [p] \<and> info_geometry p = info_geometry (last infos) \<and>
                 info_SOPInstanceUID p = record_sop_uid g (info_SOPInstanceUID (last infos)))) \<and>
         (group_metadata_readable g \<and> has_coded_finding_site g \<longrightarrow>
            (\<exists>infos' t' out'.
               extractBboxMetadataToVtkTableNode env
                 (sr\<lparr>planar_roi_measurement_groups := planar_roi_measurement_groups sr @ [g]\<rparr>) =
               Inr (infos', t', out'))))"
proof (intro conjI impI allI)
  assume first: "planar_roi_measurement_groups sr = g # rest"
  show "\<exists>e. extractBboxMetadataToVtkTableNode env sr = Inl e"
  proof (cases "referenced_series_instance_uid (sr_dataset sr)")
    case (Inl e)
    then show ?thesis by (simp add: extractBboxMetadataToVtkTableNode_def)
  next
    case (Inr s)
    from bbox_group_first_fails [OF g] obtain e where
      "bbox_group env s initial_bbox_state g = Inl e" by blast
    with Inr first show ?thesis by (simp add: extractBboxMetadataToVtkTableNode_def)
  qed
next
  assume first: "planar_roi_measurement_groups sr = g # rest"
    and rd: "(\<exists>s. referenced_series_instance_uid (sr_dataset sr) = Inr s) \<and>
             group_metadata_readable g"
  then obtain s where s: "referenced_series_instance_uid (sr_dataset sr) = Inr s" by blast
  from rd obtain ft fs where ft: "finding_type g = Some ft"
    and fs: "collect_finding_sites (finding_sites g) = Inr fs"
    by (cases "collect_finding_sites (finding_sites g)")
      (auto simp add: group_metadata_readable_def)
  from rd have "is_image_region (reference_type g) \<Longrightarrow>
      \<exists>r t. roi g = Some r \<and> GraphicType r = Some t"
    by (auto simp add: group_metadata_readable_def split: option.splits)
  from bbox_group_first_unbound [OF g ft fs this]
  have "bbox_group env s initial_bbox_state g = Inl UnboundLocalError" .
  with s first show "extractBboxMetadataToVtkTableNode env sr = Inl UnboundLocalError"
    by (simp add: extractBboxMetadataToVtkTableNode_def)
next
  fix infos t out
  assume ok: "extractBboxMetadataToVtkTableNode env sr = Inr (infos, t, out)"
  then obtain s st where s: "referenced_series_instance_uid (sr_dataset sr) = Inr s"
    and st: "bbox_groups env s initial_bbox_state (planar_roi_measurement_groups sr) = Inr st"
    and t: "tableNode st = Some t" and infos: "infos = poly_infos st"
    unfolding extract_Inr by blast
  have ne: "planar_roi_measurement_groups sr \<noteq> []"
  proof
    assume "planar_roi_measurement_groups sr = []"
    with st have "st = initial_bbox_state" by simp
    with t show False by (simp add: initial_bbox_state_def)
  qed
  from bbox_groups_matches [OF st ne] have m: "locals_match_last st" .
  then show "infos \<noteq> []" by (simp add: locals_match_last_def infos)
  {
    fix infos' t' out'
    assume "extractBboxMetadataToVtkTableNode env
              (sr\<lparr>planar_roi_measurement_groups := planar_roi_measurement_groups sr @ [g]\<rparr>) =
              Inr (infos', t', out')"
    then obtain st' where
      "bbox_groups env s initial_bbox_state (planar_roi_measurement_groups sr @ [g]) = Inr st'"
      and infos': "infos' = poly_infos st'"
      unfolding extract_Inr using s by auto
    with st have "bbox_group env s st g = Inr st'" by (simp add: bbox_groups_snoc)
    from bbox_group_reuses [OF g m this] infos infos'
    show "\<exists>p. infos' = infos @ [p] \<and> info_geometry p = info_geometry (last infos) \<and>
              info_SOPInstanceUID p = record_sop_uid g (info_SOPInstanceUID (last infos))"
      by simp
  }
  {
    assume "group_metadata_readable g \<and> has_coded_finding_site g"
    then have rd: "group_metadata_readable g" and fsite: "has_coded_finding_site g"
      by simp_all
    from bbox_group_reuse_runs [OF g m rd fsite, of env s] obtain st' t' where
      run: "bbox_group env s st g = Inr st'" and t': "tableNode st' = Some t'" by auto
    from st run
    have "bbox_groups env s initial_bbox_state (planar_roi_measurement_groups sr @ [g]) = Inr st'"
      by (simp add: bbox_groups_snoc)
    with s t' have "extractBboxMetadataToVtkTableNode env
        (sr\<lparr>planar_roi_measurement_groups := planar_roi_measurement_groups sr @ [g]\<rparr>) =
        Inr (poly_infos st', t', printed st')"
      unfolding extract_Inr by simp
    then show "\<exists>infos' t' out'. extractBboxMetadataToVtkTableNode env
        (sr\<lparr>planar_roi_measurement_groups := planar_roi_measurement_groups sr @ [g]\<rparr>) =
        Inr (infos', t', out')" by blast
  }
qed

lemma example_series:
  "referenced_series_instance_uid (sr_dataset (example_report gs)) = Inr ''series1''"
  by (simp add: example_report_def referenced_series_instance_uid_def no_elements_def)

lemma example_groups: "planar_roi_measurement_groups (example_report gs) = gs"
  by (simp add: example_report_def)

lemma example_ipp: "getIPPFromSOP example_env ''img1'' ''series1'' = Inr [0, 0, 5]"
  by (simp add: getIPPFromSOP_def example_env_def dcmread_def no_elements_def)

lemma example_sites:
  "collect_finding_sites [example_finding_site] = Inr [[''39607008'', ''SCT'', ''Lung'']]"
  by (simp add: finding_site_codes_def example_finding_site_def)

lemma example_box_extraction:
  "extractBboxMetadataToVtkTableNode example_env (example_report [example_box_group ''img1'']) =
     Inr ([\<lparr>TrackingIdentifier = ''T1'', TrackingUID = ''1.2.3.1'',
            info_SOPInstanceUID = ''img1'',
            FindingType = [''108369006'', ''SCT'', ''Neoplasm''],
            FindingSite = [[''39607008'', ''SCT'', ''Lung'']],
            polyline = [(1, 2), (5, 2), (5, 8), (1, 8)],
            width = 4, height = 6, center_x = - 3, center_y = - 5, center_z = 5\<rparr>],
          [\<lparr>row_tracking_identifier = ''T1'', row_finding_type = ''Neoplasm'',
            row_finding_site = ''Lung'', row_polyline = [(1, 2), (5, 2), (5, 8), (1, 8)],
            row_width = 4, row_height = 6, row_center = (- 3, - 5, 5)\<rparr>],
          [])"
  by (simp add: extractBboxMetadataToVtkTableNode_def example_series example_groups
      bbox_group_def example_box_group_def example_sites region_branch_def
      is_image_region_def read_referenced_sop_def roi_referenced_sop_def source_image_def
      referenced_sop_instance_uid_def polyline_branch_def bbox_geometry_eight example_ipp
      initial_bbox_state_def unbound_locals_def make_poly_info_def bbox_table_row_def
      item_at_def finding_site_codes_def example_finding_site_def)

lemma example_plain_group_facts:
  "\<not> has_polyline_roi example_plain_group"
  "group_metadata_readable example_plain_group"
  "has_coded_finding_site example_plain_group"
  by (simp_all add: has_polyline_roi_def group_metadata_readable_def
      has_coded_finding_site_def example_plain_group_def is_image_region_def
      finding_site_codes_def example_finding_site_def)

lemma example_circle_group_facts:
  "\<not> has_polyline_roi (example_circle_group uid)"
  "group_metadata_readable (example_circle_group uid)"
  "has_coded_finding_site (example_circle_group uid)"
  "record_sop_uid (example_circle_group uid) previous = uid"
  "record_sop_uid example_plain_group previous = previous"
  by (simp_all add: has_polyline_roi_def group_metadata_readable_def
      has_coded_finding_site_def example_circle_group_def example_plain_group_def
      is_image_region_def finding_site_codes_def example_finding_site_def
      record_sop_uid_def roi_referenced_sop_def source_image_def
      referenced_sop_instance_uid_def)

text \<open>
  A box on image \<open>img1\<close>, then a circle on image \<open>img2\<close>: the second record has the
  box of the first, and the referenced SOP instance UID of its own group, not that of
  the group before it.
\<close>

theorem circle_keeps_its_reference_counterexample:
  "extractBboxMetadataToVtkTableNode example_env
     (example_report [example_box_group ''img1'', example_circle_group ''img2'']) =
     Inr ([\<lparr>TrackingIdentifier = ''T1'', TrackingUID = ''1.2.3.1'',
            info_SOPInstanceUID = ''img1'',
            FindingType = [''108369006'', ''SCT'', ''Neoplasm''],
            FindingSite = [[''39607008'', ''SCT'', ''Lung'']],
            polyline = [(1, 2), (5, 2), (5, 8), (1, 8)],
            width = 4, height = 6, center_x = - 3, center_y = - 5, center_z = 5\<rparr>,
           \<lparr>TrackingIdentifier = ''T3'', TrackingUID = ''1.2.3.3'',
            info_SOPInstanceUID = ''img2'',
            FindingType = [''108369006'', ''SCT'', ''Neoplasm''],
            FindingSite = [[''39607008'', ''SCT'', ''Lung'']],
            polyline = [(1, 2), (5, 2), (5, 8), (1, 8)],
            width = 4, height = 6, center_x = - 3, center_y = - 5, center_z = 5\<rparr>],
          [\<lparr>row_tracking_identifier = ''T1'', row_finding_type = ''Neoplasm'',
            row_finding_site = ''Lung'', row_polyline = [(1, 2), (5, 2), (5, 8), (1, 8)],
            row_width = 4, row_height = 6, row_center = (- 3, - 5, 5)\<rparr>,
           \<lparr>row_tracking_identifier = ''T3'', row_finding_type = ''Neoplasm'',
            row_finding_site = ''Lung'', row_polyline = [(1, 2), (5, 2), (5, 8), (1, 8)],
            row_width = 4, row_height = 6, row_center = (- 3, - 5, 5)\<rparr>],
          []) \<and>
   \<not> has_polyline_roi (example_circle_group ''img2'') \<and>
   ''img2'' \<noteq> ''img1''"
  by (simp add: extractBboxMetadataToVtkTableNode_def example_series example_groups
      bbox_group_def example_box_group_def example_circle_group_def region_branch_def
      is_image_region_def read_referenced_sop_def roi_referenced_sop_def source_image_def
      referenced_sop_instance_uid_def polyline_branch_def bbox_geometry_eight example_ipp
      initial_bbox_state_def unbound_locals_def make_poly_info_def bbox_table_row_def
      item_at_def finding_site_codes_def example_finding_site_def has_polyline_roi_def)

theorem geometry_read_without_polyline_roi_witness:
  "\<not> has_polyline_roi example_plain_group \<and>
   \<not> has_polyline_roi (example_circle_group ''img2'') \<and>
   extractBboxMetadataToVtkTableNode example_env (example_report [example_plain_group]) =
     Inl UnboundLocalError \<and>
   (\<exists>p1 p2 t out.
      extractBboxMetadataToVtkTableNode example_env
        (example_report [example_box_group ''img1'', example_plain_group]) =
        Inr ([p1, p2], t, out) \<and>
      info_geometry p1 = ([(1, 2), (5, 2), (5, 8), (1, 8)], 4, 6, - 3, - 5, 5) \<and>
      info_geometry p2 = info_geometry p1 \<and>
      info_SOPInstanceUID p1 = ''img1'' \<and> info_SOPInstanceUID p2 = ''img1'') \<and>
   (\<exists>p1 p2 t out.
      extractBboxMetadataToVtkTableNode example_env
        (example_report [example_box_group ''img1'', example_circle_group ''img2'']) =
        Inr ([p1, p2], t, out) \<and>
      info_geometry p2 = info_geometry p1 \<and>
      info_SOPInstanceUID p1 = ''img1'' \<and> info_SOPInstanceUID p2 = ''img2'')"
proof -
  let ?p1 = "\<lparr>TrackingIdentifier = ''T1'', TrackingUID = ''1.2.3.1'',
            info_SOPInstanceUID = ''img1'',
            FindingType = [''108369006'', ''SCT'', ''Neoplasm''],
            FindingSite = [[''39607008'', ''SCT'', ''Lung'']],
            polyline = [(1, 2), (5, 2), (5, 8), (1, 8)],
            width = 4, height = 6, center_x = - 3, center_y = - 5, center_z = 5\<rparr>"
  note np = example_plain_group_facts(1)
  note nc = example_circle_group_facts(1) [of "''img2''"]
  have first: "extractBboxMetadataToVtkTableNode example_env
      (example_report [example_plain_group]) = Inl UnboundLocalError"
    using geometry_read_without_polyline_roi
      [OF np, of "example_report [example_plain_group]" "[]" example_env]
    by (simp add: example_groups example_series example_plain_group_facts)
  have ext: "(example_report [example_box_group ''img1''])
      \<lparr>planar_roi_measurement_groups :=
         planar_roi_measurement_groups (example_report [example_box_group ''img1'']) @ [g]\<rparr> =
      example_report [example_box_group ''img1'', g]" for g
    by (simp add: example_report_def)
  have later: "(\<exists>infos' t' out'.
          extractBboxMetadataToVtkTableNode example_env
            (example_report [example_box_group ''img1'', g]) = Inr (infos', t', out')) \<and>
       (\<forall>infos' t' out'.
          extractBboxMetadataToVtkTableNode example_env
            (example_report [example_box_group ''img1'', g]) = Inr (infos', t', out') \<longrightarrow>
          (\<exists>p. infos' = [?p1] @ [p] \<and> info_geometry p = info_geometry ?p1 \<and>
               info_SOPInstanceUID p = record_sop_uid g ''img1''))"
    if g: "\<not> has_polyline_roi g" "group_metadata_readable g" "has_coded_finding_site g" for g
    using geometry_read_without_polyline_roi
      [OF g(1), of "example_report [example_box_group ''img1'']" "[]" example_env]
      example_box_extraction g(2,3)
    unfolding ext by simp
  from later [OF example_plain_group_facts]
  have plain: "\<exists>p1 p2 t out.
      extractBboxMetadataToVtkTableNode example_env
        (example_report [example_box_group ''img1'', example_plain_group]) =
        Inr ([p1, p2], t, out) \<and>
      info_geometry p1 = ([(1, 2), (5, 2), (5, 8), (1, 8)], 4, 6, - 3, - 5, 5) \<and>
      info_geometry p2 = info_geometry p1 \<and>
      info_SOPInstanceUID p1 = ''img1'' \<and> info_SOPInstanceUID p2 = ''img1''"
    by (auto simp add: info_geometry_def example_circle_group_facts)
  from later [OF example_circle_group_facts(1-3) [of "''img2''"]]
  have circle: "\<exists>p1 p2 t out.
      extractBboxMetadataToVtkTableNode example_env
        (example_report [example_box_group ''img1'', example_circle_group ''img2'']) =
        Inr ([p1, p2], t, out) \<and>
      info_geometry p2 = info_geometry p1 \<and>
      info_SOPInstanceUID p1 = ''img1'' \<and> info_SOPInstanceUID p2 = ''img2''"
    by (auto simp add: info_geometry_def example_circle_group_facts)
  from np nc first plain circle show ?thesis by blast
qed

subsection \<open>The concept matcher\<close>

lemma dict_get_simps [simp]:
  "dict_get None = Inl KeyError"
  "dict_get (Some x) = Inr x"
  by (simp_all add: dict_get_def)

text \<open>
  An item without a concept name code sequence: the matcher raises, it does not answer
  False.
\<close>

theorem isConcept_absent_code_counterexample:
  "isConcept (ContentItem None None None None None None None None None None None) ''length''
     \<noteq> Inr False"
  by (simp add: isConcept_def)

text \<open>
  C3, amended. When the first item of the concept name code sequence has a scheme
  designator and a code value, \<open>isConcept\<close> answers True exactly when both equal the
  registry entry of the key. An absent sequence raises AttributeError and an empty one
  IndexError. The answer depends on nothing but the scheme designators and code values
  of the sequence: never on a code meaning.
\<close>

theorem isConcept_matches_scheme_and_value:
  "(codings key = Some (rs, rv) \<and> ConceptNameCodeSequence item = Some (c # cs) \<and>
      CodingSchemeDesignator c = Some s \<and> CodeValue c = Some v \<longrightarrow>
        isConcept item key = Inr (s = rs \<and> v = rv)) \<and>
   (ConceptNameCodeSequence item = None \<longrightarrow> isConcept item key = Inl AttributeError) \<and>
   (ConceptNameCodeSequence item = Some [] \<longrightarrow> isConcept item key = Inl IndexError) \<and>
   (map_option (map (\<lambda>c. (CodingSchemeDesignator c, CodeValue c))) (ConceptNameCodeSequence item) =
      map_option (map (\<lambda>c. (CodingSchemeDesignator c, CodeValue c))) (ConceptNameCodeSequence item')
      \<longrightarrow> isConcept item key = isConcept item' key)"
proof (intro conjI impI)
  assume "codings key = Some (rs, rv) \<and> ConceptNameCodeSequence item = Some (c # cs) \<and>
      CodingSchemeDesignator c = Some s \<and> CodeValue c = Some v"
  then show "isConcept item key = Inr (s = rs \<and> v = rv)"
    by (auto simp add: isConcept_def)
next
  assume "ConceptNameCodeSequence item = None"
  then show "isConcept item key = Inl AttributeError" by (simp add: isConcept_def)
next
  assume "ConceptNameCodeSequence item = Some []"
  then show "isConcept item key = Inl IndexError" by (simp add: isConcept_def)
next
  assume eq: "map_option (map (\<lambda>c. (CodingSchemeDesignator c, CodeValue c))) (ConceptNameCodeSequence item) =
      map_option (map (\<lambda>c. (CodingSchemeDesignator c, CodeValue c))) (ConceptNameCodeSequence item')"
  show "isConcept item key = isConcept item' key"
  proof (cases "ConceptNameCodeSequence item")
    case None
    with eq have "ConceptNameCodeSequence item' = None" by simp
    with None show ?thesis by (simp add: isConcept_def)
  next
    case (Some xs)
    with eq obtain ys where ys: "ConceptNameCodeSequence item' = Some ys"
      and m: "map (\<lambda>c. (CodingSchemeDesignator c, CodeValue c)) xs =
              map (\<lambda>c. (CodingSchemeDesignator c, CodeValue c)) ys"
      by (cases "ConceptNameCodeSequence item'") auto
    show ?thesis
    proof (cases xs)
      case Nil
      with m have "ys = []" by simp
      with Nil Some ys show ?thesis by (simp add: isConcept_def)
    next
      case (Cons x xs')
      with m obtain y ys' where y: "ys = y # ys'"
        and "CodingSchemeDesignator x = CodingSchemeDesignator y" "CodeValue x = CodeValue y"
        by (cases ys) auto
      with Cons Some ys show ?thesis by (simp add: isConcept_def cong: if_cong)
    qed
  qed
qed

theorem isConcept_matches_scheme_and_value_witness:
  "isConcept (ContentItem
      (Some [\<lparr>CodingSchemeDesignator = Some ''SRT'', CodeValue = Some ''G-D7FE'',
              CodeMeaning = Some ''anything''\<rparr>])
      None None None None None None None None None None) ''length'' = Inr True \<and>
   isConcept (ContentItem
      (Some [\<lparr>CodingSchemeDesignator = Some ''DCM'', CodeValue = Some ''G-D7FE'',
              CodeMeaning = Some ''Length''\<rparr>])
      None None None None None None None None None None) ''length'' = Inr False \<and>
   isConcept (ContentItem None None None None None None None None None None None) ''length''
     = Inl AttributeError \<and>
   isConcept (ContentItem (Some []) None None None None None None None None None None) ''length''
     = Inl IndexError"
  using isConcept_matches_scheme_and_value [of "''length''" "''SRT''" "''G-D7FE''"
      "ContentItem
      (Some [\<lparr>CodingSchemeDesignator = Some ''SRT'', CodeValue = Some ''G-D7FE'',
              CodeMeaning = Some ''anything''\<rparr>])
      None None None None None None None None None None"
      "\<lparr>CodingSchemeDesignator = Some ''SRT'', CodeValue = Some ''G-D7FE'',
              CodeMeaning = Some ''anything''\<rparr>" "[]" "''SRT''" "''G-D7FE''"]
    isConcept_matches_scheme_and_value [of "''length''" "''SRT''" "''G-D7FE''"
      "ContentItem
      (Some [\<lparr>CodingSchemeDesignator = Some ''DCM'', CodeValue = Some ''G-D7FE'',
              CodeMeaning = Some ''Length''\<rparr>])
      None None None None None None None None None None"
      "\<lparr>CodingSchemeDesignator = Some ''DCM'', CodeValue = Some ''G-D7FE'',
              CodeMeaning = Some ''Length''\<rparr>" "[]" "''DCM''" "''G-D7FE''"]
    isConcept_matches_scheme_and_value [of "''length''" "''SRT''" "''G-D7FE''"
      "ContentItem None None None None None None None None None None None"]
    isConcept_matches_scheme_and_value [of "''length''" "''SRT''" "''G-D7FE''"
      "ContentItem (Some []) None None None None None None None None None None"]
  by (simp add: codings_def)

subsection \<open>Rulers from length measurements\<close>

lemma example_walk:
  "walk_report (example_length_report uid) =
     Inr (\<lparr>personObserver = Some ''Dr A'',
           measurements = [\<lparr>trackingIdentifier = Some ''Tumor1'',
              trackingUniqueIdentifier = None, findingSite = None,
              measurement_polyline = Some [0, 0, 10, 0],
              referencedSOPInstanceUID = Some uid\<rparr>]\<rparr>, [])"
  by (simp add: walk_report_def example_length_report_def named_item_def walk_item_def
      isConcept_def codings_def walk_content_item_def walk_measurement_item_def
      walk_length_item_def walk_selection_def walk_reference_def source_image_def
      empty_measurement_def)

lemma point_in_patient_three:
  "point_in_patient [ox, oy, oz] [a, b, c] [d, e, f] col row =
     Inr [ox + a * col + d * row, oy + b * col + e * row, oz + c * col + f * row]"
  by (simp add: point_in_patient_def np_elementwise_def np_scale_def)

lemma ruler_points_found:
  assumes "referencedSOPInstanceUID m = Some uid"
    and "fileForInstance env uid = path" and "path \<noteq> []"
    and "read_file env path = Some reference"
    and "ImagePositionPatient reference = Some [ox, oy, oz]"
    and "ImageOrientationPatient reference = Some [a, b, c, d, e, f]"
    and "PixelSpacing reference = Some [rowSpacing, columnSpacing]"
  shows "ruler_points env m [col1, row1, col2, row2] =
     Inr ([- (ox + a * columnSpacing * col1 + d * rowSpacing * row1),
           - (oy + b * columnSpacing * col1 + e * rowSpacing * row1),
           oz + c * columnSpacing * col1 + f * rowSpacing * row1],
          [- (ox + a * columnSpacing * col2 + d * rowSpacing * row2),
           - (oy + b * columnSpacing * col2 + e * rowSpacing * row2),
           oz + c * columnSpacing * col2 + f * rowSpacing * row2])"
  using assms
  by (simp add: ruler_points_def dcmread_def item_at_def unpack4_def np_scale_def
      point_in_patient_three np_elementwise_def lpsToRAS_def Let_def)

text \<open>
  Row spacing 1, column spacing 2, rows along x: the two points of the polyline
  [0, 0, 10, 0] are 20 apart in x, not 10 times the row spacing.
\<close>

theorem ruler_column_spacing_counterexample:
  "PixelSpacing (the (read_file example_env ''f1'')) = Some [1, 2] \<and>
   point_in_patient [0, 0, 5] (np_scale 2 [1, 0, 0]) (np_scale 1 [0, 1, 0]) 0 0 =
     Inr [0, 0, 5] \<and>
   point_in_patient [0, 0, 5] (np_scale 2 [1, 0, 0]) (np_scale 1 [0, 1, 0]) 10 0 =
     Inr [20, 0, 5] \<and>
   ruler_points example_env
     \<lparr>trackingIdentifier = Some ''Tumor1'', trackingUniqueIdentifier = None,
      findingSite = None, measurement_polyline = Some [0, 0, 10, 0],
      referencedSOPInstanceUID = Some ''img1''\<rparr> [0, 0, 10, 0] =
     Inr ([0, 0, 5], [- 20, 0, 5]) \<and>
   (20 :: real) - 0 \<noteq> 10 * 1"
  by (simp add: example_env_def no_elements_def ruler_points_def dcmread_def item_at_def
      unpack4_def np_scale_def point_in_patient_three np_elementwise_def lpsToRAS_def)

text \<open>
  C4, amended. For the polyline [0, 0, 10, 0] and a referenced image with position
  (ox, oy, oz), orientation (a, b, c, d, e, f) and pixel spacing (row spacing, column
  spacing), the two points before the sign flip are the origin and the origin plus 10
  times the column spacing times (a, b, c); the control points are these with x and y
  negated. So the points differ by 10 * column spacing * (a, b, c): in x alone exactly
  when b and c contribute nothing.
\<close>

theorem ruler_points_of_length:
  assumes "referencedSOPInstanceUID m = Some uid"
    and "fileForInstance env uid = path" and "path \<noteq> []"
    and "read_file env path = Some reference"
    and "ImagePositionPatient reference = Some [ox, oy, oz]"
    and "ImageOrientationPatient reference = Some [a, b, c, d, e, f]"
    and "PixelSpacing reference = Some [rowSpacing, columnSpacing]"
  shows "point_in_patient [ox, oy, oz] (np_scale columnSpacing [a, b, c])
           (np_scale rowSpacing [d, e, f]) 0 0 = Inr [ox, oy, oz] \<and>
         point_in_patient [ox, oy, oz] (np_scale columnSpacing [a, b, c])
           (np_scale rowSpacing [d, e, f]) 10 0 =
           Inr [ox + 10 * columnSpacing * a, oy + 10 * columnSpacing * b,
                oz + 10 * columnSpacing * c] \<and>
         ruler_points env m [0, 0, 10, 0] =
           Inr ([- ox, - oy, oz],
                [- (ox + 10 * columnSpacing * a), - (oy + 10 * columnSpacing * b),
                 oz + 10 * columnSpacing * c])"
proof -
  have "ruler_points env m [0, 0, 10, 0] =
           Inr ([- ox, - oy, oz],
                [- (ox + 10 * columnSpacing * a), - (oy + 10 * columnSpacing * b),
                 oz + 10 * columnSpacing * c])"
    using ruler_points_found [OF assms, of 0 0 10 0] by (simp add: mult.commute mult.left_commute)
  then show ?thesis
    by (simp add: np_scale_def point_in_patient_three mult.commute mult.left_commute)
qed

lemma example_reports:
  "read_report example_env (fileForInstance example_env ''sr1'') =
     Some (example_length_report ''img1'')"
  "read_report example_env (fileForInstance example_env ''sr2'') =
     Some (example_length_report ''img9'')"
  by (simp_all add: example_env_def)

lemma example_root:
  "isConcept (example_length_report uid) ''imagingMeasurementReport'' = Inr True"
  by (simp add: isConcept_def codings_def example_length_report_def named_item_def)

theorem ruler_points_of_length_witness:
  "ruler_points example_env
     \<lparr>trackingIdentifier = Some ''Tumor1'', trackingUniqueIdentifier = None,
      findingSite = None, measurement_polyline = Some [0, 0, 10, 0],
      referencedSOPInstanceUID = Some ''img1''\<rparr> [0, 0, 10, 0] =
     Inr ([0, 0, 5], [- 20, 0, 5]) \<and>
   loadAdditionalMeasurements example_env ''sr1'' [] =
     \<lparr>scene_nodes = [\<lparr>node_name = Some ''Dr A'',
                       control_points = [[0, 0, 5], [- 20, 0, 5]]\<rparr>],
      printed_lines = [], raised = None\<rparr>"
proof -
  let ?m = "\<lparr>trackingIdentifier = Some ''Tumor1'', trackingUniqueIdentifier = None,
      findingSite = None, measurement_polyline = Some [0, 0, 10, 0],
      referencedSOPInstanceUID = Some ''img1''\<rparr>"
  have pts: "ruler_points example_env ?m [0, 0, 10, 0] = Inr ([0, 0, 5], [- 20, 0, 5])"
    using ruler_points_of_length [of ?m "''img1''" example_env "''f1''"
        "the (read_file example_env ''f1'')" 0 0 5 1 0 0 0 1 0 1 2]
    by (simp add: example_env_def no_elements_def)
  have "loadAdditionalMeasurements example_env ''sr1'' [] =
     \<lparr>scene_nodes = [\<lparr>node_name = Some ''Dr A'',
                       control_points = [[0, 0, 5], [- 20, 0, 5]]\<rparr>],
      printed_lines = [], raised = None\<rparr>"
    by (simp add: loadAdditionalMeasurements_def example_reports example_root example_walk
        place_measurement_def pts)
  with pts show ?thesis by simp
qed

subsection \<open>A referenced image that cannot be found\<close>





subsection \<open>Warnings of the reference resolver\<close>

text \<open>
  C6. The test for more than one segmentation stands after the loop over the datasets
  and reads the list of the last dataset only. Report 1.1 references two segmentation
  series: with report 1.2 after it no warning is logged, with report 1.2 before it the
  warning is.
\<close>

theorem segmentation_warning_last_report_only:
  "createLoadableAndAddReferences example_env (\<lambda>files. [])
     [report_with_two_segmentations, report_without_references] =
     Inr (\<lparr>referencedSegInstanceUIDs = [''1.1'', ''1.2''],
           ReferencedSegmentationInstanceUIDs = [(''1.1'', [''S1'', ''S2'']), (''1.2'', [])],
           ReferencedRWVMSeriesInstanceUIDs = [], ReferencedOtherInstanceUIDs = [],
           referencedInstanceUIDs = []\<rparr>, []) \<and>
   createLoadableAndAddReferences example_env (\<lambda>files. [])
     [report_without_references, report_with_two_segmentations] =
     Inr (\<lparr>referencedSegInstanceUIDs = [''1.2'', ''1.1''],
           ReferencedSegmentationInstanceUIDs = [(''1.2'', []), (''1.1'', [''S1'', ''S2''])],
           ReferencedRWVMSeriesInstanceUIDs = [], ReferencedOtherInstanceUIDs = [],
           referencedInstanceUIDs = []\<rparr>,
          [''SR references more than one SEG. This has not been tested!''])"
  by (simp add: createLoadableAndAddReferences_def add_dataset_def
      report_with_two_segmentations_def report_without_references_def getDICOMValue_def
      no_elements_def add_study_def add_series_def add_reference_def referenced_series_def
      add_segmentation_def UID_SegmentationStorage_def dict_append_def Let_def)

subsection \<open>Ordering reports by date and time\<close>

lemma digit_values [simp]:
  "digit_value CHR ''0'' = Some 0" "digit_value CHR ''1'' = Some 1"
  "digit_value CHR ''2'' = Some 2" "digit_value CHR ''3'' = Some 3"
  "digit_value CHR ''4'' = Some 4" "digit_value CHR ''5'' = Some 5"
  "digit_value CHR ''6'' = Some 6" "digit_value CHR ''7'' = Some 7"
  "digit_value CHR ''8'' = Some 8" "digit_value CHR ''9'' = Some 9"
  by (simp_all add: digit_value_def)

lemmas group_defs = group_Y_def group_m_def group_d_def group_H_def group_M_def group_S_def
  two_digits_def two_chars_def one_digit_def

lemma strptime_study_date_and_time:
  "strptime (''20230101'' @ ''100000'') = Inr (DateTime 2023 1 1 10 0 0)"
  by (simp add: strptime_def matches_def group_defs valid_datetime_def days_in_month_def)

lemma strptime_study_date_twice: "strptime (''20230101'' @ ''20230101'') = Inl ValueError"
  by (simp add: strptime_def matches_def group_defs valid_datetime_def days_in_month_def)

lemma strptime_series: "strptime (''20220615'' @ ''090000'') = Inr (DateTime 2022 6 15 9 0 0)"
  by (simp add: strptime_def matches_def group_defs valid_datetime_def days_in_month_def)

lemma getDateTime_study_branch:
  assumes "read_file env (fileForInstance env uid) = Some ds"
    and "SeriesDate ds = None \<or> SeriesTime ds = None"
    and "StudyDate ds = Some d" and "StudyTime ds = Some t"
  shows "getDateTime env uid =
     (case strptime (d @ d) of
        Inr x \<Rightarrow> Inr (Parsed x)
      | Inl ValueError \<Rightarrow> Inr EmptyString
      | Inl e \<Rightarrow> Inl e)"
  using assms by (auto simp add: getDateTime_def dcmread_def)

text \<open>
  C2. Report \<open>u2\<close> has a study date and time only. Its key is the empty string, not
  1 January 2023 10:00:00: the study branch parses the date followed by the date. Sorted
  together with a report whose key is a datetime, the comparison of the two keys raises
  TypeError.
\<close>

theorem study_time_not_read:
  "getDateTime dated_env ''u2'' = Inr EmptyString \<and>
   strptime (''20230101'' @ ''100000'') = Inr (DateTime 2023 1 1 10 0 0) \<and>
   getDateTime dated_env ''u1'' = Inr (Parsed (DateTime 2022 6 15 9 0 0)) \<and>
   sortReportsByDateTime dated_env [''u1'', ''u2''] = Inl TypeError"
proof -
  have u2: "getDateTime dated_env ''u2'' = Inr EmptyString"
    using strptime_study_date_twice
    by (simp add: getDateTime_def dated_env_def dcmread_def no_elements_def)
  have u1: "getDateTime dated_env ''u1'' = Inr (Parsed (DateTime 2022 6 15 9 0 0))"
    using strptime_series
    by (simp add: getDateTime_def dated_env_def dcmread_def no_elements_def)
  have "sortReportsByDateTime dated_env [''u1'', ''u2''] = Inl TypeError"
    by (simp add: sortReportsByDateTime_def u1 u2)
  with u1 u2 strptime_study_date_and_time show ?thesis by simp
qed

subsection \<open>Unique column names\<close>

lemma str_nat_small: "str_nat 1 = ''1''" "str_nat 2 = ''2''" "str_nat 3 = ''3''"
  by (simp_all add: str_nat.simps)

lemma number_duplicates_length:
  "length (fst (number_duplicates names k copy counts)) = length copy"
  by (induction k arbitrary: copy counts) (auto split: option.splits)

lemma number_duplicates_invariant:
  assumes "k \<le> length names" and "length copy = length names"
    and "\<And>j. j < length names \<Longrightarrow>
           copy ! j = (if k \<le> j then occurrence_name names j else names ! j)"
    and "\<And>x. counts x =
           (if 1 < count_list names x then Some (count_list (take k names) x) else None)"
    and "j < length names"
  shows "fst (number_duplicates names k copy counts) ! j = occurrence_name names j"
  using assms
proof (induction k arbitrary: copy counts)
  case 0
  then show ?case by simp
next
  case (Suc k)
  let ?item = "names ! k"
  have k: "k < length names" using Suc.prems(1) by simp
  have tk: "take (Suc k) names = take k names @ [?item]"
    using k by (simp add: take_Suc_conv_app_nth)
  show ?case
  proof (cases "1 < count_list names ?item")
    case False
    then have none: "counts ?item = None" using Suc.prems(4) by simp
    have copy: "\<And>j. j < length names \<Longrightarrow>
           copy ! j = (if k \<le> j then occurrence_name names j else names ! j)"
    proof -
      fix j assume j: "j < length names"
      show "copy ! j = (if k \<le> j then occurrence_name names j else names ! j)"
      proof (cases "j = k")
        case True
        with False Suc.prems(3) [OF j] show ?thesis by (simp add: occurrence_name_def)
      next
        case False
        with Suc.prems(3) [OF j] show ?thesis by auto
      qed
    qed
    have counts: "\<And>x. counts x =
           (if 1 < count_list names x then Some (count_list (take k names) x) else None)"
    proof -
      fix x
      show "counts x =
           (if 1 < count_list names x then Some (count_list (take k names) x) else None)"
        using Suc.prems(4) [of x] False by (auto simp add: tk)
    qed
    have "fst (number_duplicates names k copy counts) ! j = occurrence_name names j"
      using Suc.IH [OF _ Suc.prems(2) copy counts Suc.prems(5)] k by simp
    with none show ?thesis by simp
  next
    case True
    define c where "c = count_list (take (Suc k) names) ?item"
    have some: "counts ?item = Some c" using Suc.prems(4) True by (simp add: c_def)
    have c: "c = Suc (count_list (take k names) ?item)" by (simp add: c_def tk)
    define copy' where "copy' = copy[k := copy ! k @ '' ('' @ str_nat c @ '')'']"
    define counts' where "counts' = counts(?item \<mapsto> c - 1)"
    have len: "length copy' = length names" using Suc.prems(2) by (simp add: copy'_def)
    have copy: "\<And>j. j < length names \<Longrightarrow>
           copy' ! j = (if k \<le> j then occurrence_name names j else names ! j)"
    proof -
      fix j assume j: "j < length names"
      show "copy' ! j = (if k \<le> j then occurrence_name names j else names ! j)"
      proof (cases "j = k")
        case True
        have "copy ! k = names ! k" using Suc.prems(3) [OF k] by simp
        with True \<open>1 < count_list names ?item\<close> k Suc.prems(2) show ?thesis
          by (simp add: copy'_def occurrence_name_def c_def)
      next
        case False
        with Suc.prems(3) [OF j] show ?thesis by (auto simp add: copy'_def)
      qed
    qed
    have counts: "\<And>x. counts' x =
           (if 1 < count_list names x then Some (count_list (take k names) x) else None)"
    proof -
      fix x
      show "counts' x =
           (if 1 < count_list names x then Some (count_list (take k names) x) else None)"
        using Suc.prems(4) [of x] True c by (auto simp add: counts'_def tk)
    qed
    have "fst (number_duplicates names k copy' counts') ! j = occurrence_name names j"
      using Suc.IH [OF _ len copy counts Suc.prems(5)] k by simp
    with some c show ?thesis by (simp add: copy'_def counts'_def)
  qed
qed

lemma enumerateDuplicateNames_length:
  "length (enumerateDuplicateNames items) = length items"
  by (simp add: enumerateDuplicateNames_def Let_def number_duplicates_length)

lemma enumerateDuplicateNames_nth:
  assumes "i < length items"
  shows "enumerateDuplicateNames items ! i =
           (items ! i)\<lparr>name := occurrence_name (map name items) i\<rparr>"
proof -
  let ?names = "map name items"
  let ?copy = "fst (number_duplicates ?names (length ?names) ?names (duplicate_counts ?names))"
  have len: "length ?copy = length items" by (simp add: number_duplicates_length)
  have "?copy ! i = occurrence_name ?names i"
  proof (rule number_duplicates_invariant)
    show "length ?names \<le> length ?names" by simp
    show "length ?names = length ?names" by simp
    show "i < length ?names" using assms by simp
  next
    fix j assume "j < length ?names"
    then show "?names ! j =
        (if length ?names \<le> j then occurrence_name ?names j else ?names ! j)" by simp
  next
    fix x
    show "duplicate_counts ?names x =
        (if 1 < count_list ?names x then Some (count_list (take (length ?names) ?names) x)
         else None)"
      by (simp add: duplicate_counts_def)
  qed
  with assms len show ?thesis
    by (simp add: enumerateDuplicateNames_def Let_def)
qed

text \<open>
  The names A, A, B, A: the pass does not give A (3), A (2), B, A.
\<close>

theorem enumerateDuplicateNames_counterexample:
  "map name (enumerateDuplicateNames
     [\<lparr>name = ''A'', unit = ''mm'', description = ''A''\<rparr>,
      \<lparr>name = ''A'', unit = ''mm'', description = ''A''\<rparr>,
      \<lparr>name = ''B'', unit = ''mm'', description = ''B''\<rparr>,
      \<lparr>name = ''A'', unit = ''mm'', description = ''A''\<rparr>])
   \<noteq> [''A (3)'', ''A (2)'', ''B'', ''A'']"
  by (simp add: enumerateDuplicateNames_def duplicate_counts_def numeral_eq_Suc
      str_nat.simps)

text \<open>
  C1, amended. The pass keeps the number of items and their units and descriptions. A
  name that occurs once is left as it is; every occurrence of a name that occurs more
  than once, the first one too, gets the suffix " (k)" where k counts the occurrences
  of the name up to and including that item. The names A, A, B, A become A (1), A (2),
  B, A (3).
\<close>

theorem enumerateDuplicateNames_numbers_occurrences:
  "length (enumerateDuplicateNames items) = length items \<and>
   (i < length items \<longrightarrow>
      name (enumerateDuplicateNames items ! i) = occurrence_name (map name items) i \<and>
      unit (enumerateDuplicateNames items ! i) = unit (items ! i) \<and>
      description (enumerateDuplicateNames items ! i) = description (items ! i)) \<and>
   map name (enumerateDuplicateNames
     [\<lparr>name = ''A'', unit = u1, description = d1\<rparr>,
      \<lparr>name = ''A'', unit = u2, description = d2\<rparr>,
      \<lparr>name = ''B'', unit = u3, description = d3\<rparr>,
      \<lparr>name = ''A'', unit = u4, description = d4\<rparr>])
     = [''A (1)'', ''A (2)'', ''B'', ''A (3)'']"
proof (intro conjI impI)
  show "length (enumerateDuplicateNames items) = length items"
    by (rule enumerateDuplicateNames_length)
next
  assume i: "i < length items"
  show "name (enumerateDuplicateNames items ! i) = occurrence_name (map name items) i"
    by (simp add: enumerateDuplicateNames_nth [OF i])
  show "unit (enumerateDuplicateNames items ! i) = unit (items ! i)"
    by (simp add: enumerateDuplicateNames_nth [OF i])
  show "description (enumerateDuplicateNames items ! i) = description (items ! i)"
    by (simp add: enumerateDuplicateNames_nth [OF i])
next
  show "map name (enumerateDuplicateNames
     [\<lparr>name = ''A'', unit = u1, description = d1\<rparr>,
      \<lparr>name = ''A'', unit = u2, description = d2\<rparr>,
      \<lparr>name = ''B'', unit = u3, description = d3\<rparr>,
      \<lparr>name = ''A'', unit = u4, description = d4\<rparr>])
     = [''A (1)'', ''A (2)'', ''B'', ''A (3)'']"
    by (simp add: enumerateDuplicateNames_def duplicate_counts_def numeral_eq_Suc
        str_nat.simps)
qed

theorem enumerateDuplicateNames_numbers_occurrences_witness:
  "name (enumerateDuplicateNames
     [\<lparr>name = ''A'', unit = ''mm'', description = ''A''\<rparr>,
      \<lparr>name = ''A'', unit = ''mm'', description = ''A''\<rparr>,
      \<lparr>name = ''B'', unit = ''mm'', description = ''B''\<rparr>,
      \<lparr>name = ''A'', unit = ''mm'', description = ''A''\<rparr>] ! 0) = ''A (1)'' \<and>
   name (enumerateDuplicateNames
     [\<lparr>name = ''A'', unit = ''mm'', description = ''A''\<rparr>,
      \<lparr>name = ''A'', unit = ''mm'', description = ''A''\<rparr>,
      \<lparr>name = ''B'', unit = ''mm'', description = ''B''\<rparr>,
      \<lparr>name = ''A'', unit = ''mm'', description = ''A''\<rparr>] ! 2) = ''B''"
  using enumerateDuplicateNames_numbers_occurrences [of
     "[\<lparr>name = ''A'', unit = ''mm'', description = ''A''\<rparr>,
      \<lparr>name = ''A'', unit = ''mm'', description = ''A''\<rparr>,
      \<lparr>name = ''B'', unit = ''mm'', description = ''B''\<rparr>,
      \<lparr>name = ''A'', unit = ''mm'', description = ''A''\<rparr>]" 0]
    enumerateDuplicateNames_numbers_occurrences [of
     "[\<lparr>name = ''A'', unit = ''mm'', description = ''A''\<rparr>,
      \<lparr>name = ''A'', unit = ''mm'', description = ''A''\<rparr>,
      \<lparr>name = ''B'', unit = ''mm'', description = ''B''\<rparr>,
      \<lparr>name = ''A'', unit = ''mm'', description = ''A''\<rparr>]" 2]
  by (simp add: occurrence_name_def str_nat.simps)

end
